theory Spec2Isabelle
  imports Complex_Main
begin

section \<open>Floor-plan analysis pipeline: shared data\<close>

text \<open>
  The development embeds two Python modules: \<^verbatim>\<open>web-app/backend/main.py\<close> (the
  \<^verbatim>\<open>/analyze\<close> request handler) and \<^verbatim>\<open>web-app/backend/gem_ai/floorplan_model.py\<close>
  (segmentation model wrapper, room extractor, model cache).

  Python \<^verbatim>\<open>int\<close> is \<^typ>\<open>int\<close>. The arithmetic of the request handler is that of
  Python \<^verbatim>\<open>float\<close>, IEEE binary64 with rounding to nearest, modelled in the next
  section. The areas that OpenCV reports to the room extractor are only compared with
  a threshold, never computed with, and are kept as \<^typ>\<open>real\<close>.

  Exceptions are values. \<open>HTTPException\<close> carries status code and detail; every other
  exception of class \<^verbatim>\<open>Exception\<close> carries the text that \<^verbatim>\<open>str(e)\<close> gives.
\<close>

datatype exn =
    HTTPException int string
  | ZeroDivisionError string
  | OverflowError string
  | RuntimeError string
  | Exception string

fun str_exn :: "exn \<Rightarrow> string" where
  "str_exn (HTTPException code detail) = detail"
| "str_exn (ZeroDivisionError msg) = msg"
| "str_exn (OverflowError msg) = msg"
| "str_exn (RuntimeError msg) = msg"
| "str_exn (Exception msg) = msg"

text \<open>
  A detected room in pixel space: the dict
  \<^verbatim>\<open>{"x": .., "y": .., "w": .., "h": .., "class_name": ..}\<close> built by
  \<^verbatim>\<open>extract_rooms_from_mask\<close> and read by \<^verbatim>\<open>analyze_floorplan\<close>. Field \<open>px_x\<close> is key
  \<^verbatim>\<open>"x"\<close>, and so on; origin top-left, y grows downwards.
\<close>

record pixel_room =
  px_x :: int
  px_y :: int
  px_w :: int
  px_h :: int
  class_name :: string

text \<open>
  A room in metres: the dict appended to \<^verbatim>\<open>rooms_m\<close> in \<^verbatim>\<open>analyze_floorplan\<close>, keys
  \<^verbatim>\<open>"x"\<close>, \<^verbatim>\<open>"y"\<close>, \<^verbatim>\<open>"width"\<close>, \<^verbatim>\<open>"height"\<close>, \<^verbatim>\<open>"area_m2"\<close>, over the type \<open>'n\<close> of its
  numbers.
\<close>

record 'n metric_room =
  m_x :: 'n
  m_y :: 'n
  m_width :: 'n
  m_height :: 'n
  area_m2 :: 'n

section \<open>Python floats\<close>

text \<open>
  A float is a finite binary64 number, an infinity or a NaN. The two zeros are not
  told apart: they compare equal, and nothing in the two modules divides by a zero
  or takes the sign of one.
\<close>

datatype pyfloat = Finite real | PosInf | NegInf | NaN

text \<open>The nearest integer, a tie going to the even one.\<close>

definition round_half_even :: "real \<Rightarrow> int" where
  "round_half_even v =
     (let f = \<lfloor>v\<rfloor>; d = v - of_int f
      in if d < 1 / 2 then f
         else if d > 1 / 2 then f + 1
         else if even f then f else f + 1)"

text \<open>
  The binary exponent of a magnitude \<open>a\<close>: the least \<open>e\<close> from \<open>-1022\<close> on with
  \<open>a < 2\<^sup>e\<^sup>+\<^sup>1\<close>, searched upwards, at most \<open>1024\<close>. Magnitudes below \<open>2\<^sup>-\<^sup>1\<^sup>0\<^sup>2\<^sup>2\<close> are
  subnormal and share the exponent \<open>-1022\<close>.
\<close>

fun find_exponent :: "nat \<Rightarrow> int \<Rightarrow> real \<Rightarrow> int" where
  "find_exponent 0 e a = e"
| "find_exponent (Suc n) e a = (if a < 2 powi (e + 1) then e else find_exponent n (e + 1) a)"

definition exponent :: "real \<Rightarrow> int" where
  "exponent a = find_exponent 2046 (- 1022) a"

text \<open>
  Rounding to 53 significant bits: to the nearest multiple of \<open>2\<^sup>e\<^sup>-\<^sup>5\<^sup>2\<close>, ties to even;
  and the float that an operation with exact result \<open>v\<close> delivers, an infinity when
  the rounded magnitude reaches \<open>2\<^sup>1\<^sup>0\<^sup>2\<^sup>4\<close>.
\<close>

definition round64 :: "real \<Rightarrow> real" where
  "round64 v = (let q = 2 powi (exponent \<bar>v\<bar> - 52) in of_int (round_half_even (v / q)) * q)"

definition fl :: "real \<Rightarrow> pyfloat" where
  "fl v =
     (let r = round64 v
      in if 2 powi 1024 \<le> r then PosInf
         else if r \<le> - (2 powi 1024) then NegInf
         else Finite r)"

text \<open>
  The sign of a float as \<open>-1\<close>, \<open>0\<close> or \<open>1\<close>, and the result of an operation of which
  only the sign is known: an infinity, or NaN for \<open>0 * inf\<close>.
\<close>

fun sign_of :: "pyfloat \<Rightarrow> real" where
  "sign_of (Finite v) = sgn v"
| "sign_of PosInf = 1"
| "sign_of NegInf = - 1"
| "sign_of NaN = 0"

definition inf_of_sign :: "real \<Rightarrow> pyfloat" where
  "inf_of_sign s = (if 0 < s then PosInf else if s < 0 then NegInf else NaN)"

fun is_zero :: "pyfloat \<Rightarrow> bool" where
  "is_zero (Finite v) = (v = 0)"
| "is_zero a = False"

text \<open>IEEE addition and multiplication, and IEEE division by a divisor that is not zero.\<close>

fun float_add :: "pyfloat \<Rightarrow> pyfloat \<Rightarrow> pyfloat" where
  "float_add NaN b = NaN"
| "float_add a NaN = NaN"
| "float_add (Finite v) (Finite w) = fl (v + w)"
| "float_add (Finite v) b = b"
| "float_add a (Finite w) = a"
| "float_add a b = (if a = b then a else NaN)"

fun float_mul :: "pyfloat \<Rightarrow> pyfloat \<Rightarrow> pyfloat" where
  "float_mul NaN b = NaN"
| "float_mul a NaN = NaN"
| "float_mul (Finite v) (Finite w) = fl (v * w)"
| "float_mul a b = inf_of_sign (sign_of a * sign_of b)"

fun ieee_div :: "pyfloat \<Rightarrow> pyfloat \<Rightarrow> pyfloat" where
  "ieee_div NaN b = NaN"
| "ieee_div a NaN = NaN"
| "ieee_div (Finite v) (Finite w) = fl (v / w)"
| "ieee_div (Finite v) b = Finite 0"
| "ieee_div a (Finite w) = inf_of_sign (sign_of a * sgn w)"
| "ieee_div a b = NaN"

text \<open>
  The operator \<^verbatim>\<open>/\<close> of Python on two floats raises for a zero divisor; on an
  \<^verbatim>\<open>int\<close> and a float it first converts the \<^verbatim>\<open>int\<close>, rounding to nearest, and that
  conversion raises \<^verbatim>\<open>OverflowError\<close> for an \<^verbatim>\<open>int\<close> beyond the range of a float.
\<close>

definition float_truediv :: "pyfloat \<Rightarrow> pyfloat \<Rightarrow> exn + pyfloat" where
  "float_truediv a b =
     (if is_zero b then Inl (ZeroDivisionError ''float division by zero'')
      else Inr (ieee_div a b))"

definition float_of_int :: "int \<Rightarrow> exn + pyfloat" where
  "float_of_int i =
     (case fl (of_int i) of
        Finite v \<Rightarrow> Inr (Finite v)
      | _ \<Rightarrow> Inl (OverflowError ''int too large to convert to float''))"

definition int_truediv :: "int \<Rightarrow> pyfloat \<Rightarrow> exn + pyfloat" where
  "int_truediv i b =
     (case float_of_int i of
        Inl e \<Rightarrow> Inl e
      | Inr a \<Rightarrow> float_truediv a b)"

text \<open>
  Comparison (false whenever a NaN is compared), and \<^verbatim>\<open>max\<close> and \<^verbatim>\<open>min\<close> of two
  arguments, which keep the first unless the second compares greater (smaller).
\<close>

fun float_gt :: "pyfloat \<Rightarrow> pyfloat \<Rightarrow> bool" where
  "float_gt NaN b = False"
| "float_gt a NaN = False"
| "float_gt (Finite v) (Finite w) = (w < v)"
| "float_gt PosInf b = (b \<noteq> PosInf)"
| "float_gt a NegInf = (a \<noteq> NegInf)"
| "float_gt a b = False"

definition py_max :: "pyfloat \<Rightarrow> pyfloat \<Rightarrow> pyfloat" where
  "py_max a b = (if float_gt b a then b else a)"

definition py_min :: "pyfloat \<Rightarrow> pyfloat \<Rightarrow> pyfloat" where
  "py_min a b = (if float_gt a b then b else a)"

section \<open>Geometric projection (main.py, "Convert to metres")\<close>


text \<open>
  The same body as Python executes it. \<^verbatim>\<open>height - y - h\<close> is arithmetic of \<^verbatim>\<open>int\<close>; every
  \<^verbatim>\<open>/\<close> has an \<^verbatim>\<open>int\<close> on the left and the float \<^verbatim>\<open>ppm\<close> on the right, and they are
  evaluated in the order of the source: \<^verbatim>\<open>y_flipped\<close> first, then the values of the
  dict from \<^verbatim>\<open>"x"\<close> to \<^verbatim>\<open>"area_m2"\<close>, where \<^verbatim>\<open>w / ppm\<close> and \<^verbatim>\<open>h / ppm\<close> are computed a
  second time and multiplied.
\<close>

definition project_float :: "int \<Rightarrow> pyfloat \<Rightarrow> pixel_room \<Rightarrow> exn + pyfloat metric_room" where
  "project_float height ppm r =
     (let x = px_x r; y = px_y r; w = px_w r; h = px_h r in
      case int_truediv (height - y - h) ppm of Inl e \<Rightarrow> Inl e | Inr y_flipped \<Rightarrow>
      case int_truediv x ppm of Inl e \<Rightarrow> Inl e | Inr x_m \<Rightarrow>
      case int_truediv w ppm of Inl e \<Rightarrow> Inl e | Inr width \<Rightarrow>
      case int_truediv h ppm of Inl e \<Rightarrow> Inl e | Inr height_m \<Rightarrow>
      case int_truediv w ppm of Inl e \<Rightarrow> Inl e | Inr w2 \<Rightarrow>
      case int_truediv h ppm of Inl e \<Rightarrow> Inl e | Inr h2 \<Rightarrow>
        Inr \<lparr> m_x = x_m,
              m_y = y_flipped,
              m_width = width,
              m_height = height_m,
              area_m2 = float_mul w2 h2 \<rparr>)"

text \<open>The loop itself: \<^verbatim>\<open>rooms_m\<close> is the accumulator, extended by \<^verbatim>\<open>append\<close>.\<close>

fun to_metres ::
  "int \<Rightarrow> pyfloat \<Rightarrow> pyfloat metric_room list \<Rightarrow> pixel_room list
     \<Rightarrow> exn + pyfloat metric_room list" where
  "to_metres height ppm rooms_m [] = Inr rooms_m"
| "to_metres height ppm rooms_m (r # rooms_px) =
     (case project_float height ppm r of
        Inl e \<Rightarrow> Inl e
      | Inr m \<Rightarrow> to_metres height ppm (rooms_m @ [m]) rooms_px)"


section \<open>Segmentation model wrapper (gem_ai/floorplan_model.py)\<close>

text \<open>The dict \<^verbatim>\<open>ROOM_CATEGORIES\<close> and \<^verbatim>\<open>NUM_CLASSES = len(ROOM_CATEGORIES)\<close>.\<close>

definition ROOM_CATEGORIES :: "(nat \<times> string) list" where
  "ROOM_CATEGORIES =
     [(0, ''background''), (1, ''outdoor''), (2, ''wall''), (3, ''kitchen''),
      (4, ''living_room''), (5, ''bedroom''), (6, ''bathroom''), (7, ''hallway''),
      (8, ''storage''), (9, ''garage''), (10, ''other'')]"

definition NUM_CLASSES :: nat where
  "NUM_CLASSES = length ROOM_CATEGORIES"

text \<open>\<^verbatim>\<open>ROOM_CATEGORIES.get(class_id, "other")\<close>.\<close>

definition category_name :: "nat \<Rightarrow> string" where
  "category_name class_id =
     (case map_of ROOM_CATEGORIES class_id of Some n \<Rightarrow> n | None \<Rightarrow> ''other'')"

subsection \<open>Room extractor\<close>

text \<open>
  A mask is a two-dimensional array of \<^verbatim>\<open>uint8\<close> class indices, here a list of rows.
  OpenCV is outside the repository: \<^verbatim>\<open>cv2.findContours\<close> (with \<^verbatim>\<open>RETR_EXTERNAL\<close>,
  \<^verbatim>\<open>CHAIN_APPROX_SIMPLE\<close>), \<^verbatim>\<open>cv2.contourArea\<close> and \<^verbatim>\<open>cv2.boundingRect\<close> are parameters,
  over any type \<open>'c\<close> of contours. \<open>findContours\<close> may raise.
\<close>

type_synonym mask = "nat list list"

record 'c cv2 =
  findContours :: "mask \<Rightarrow> exn + 'c list"
  contourArea :: "'c \<Rightarrow> real"
  boundingRect :: "'c \<Rightarrow> int \<times> int \<times> int \<times> int"

text \<open>\<^verbatim>\<open>(mask == class_id).astype(np.uint8) * 255\<close>\<close>

definition class_mask :: "mask \<Rightarrow> nat \<Rightarrow> mask" where
  "class_mask m class_id = map (map (\<lambda>v. if v = class_id then 255 else 0)) m"

text \<open>
  The dict appended for a contour: \<^verbatim>\<open>cv2.boundingRect(contour)\<close> and the name of the class.
\<close>

definition bounding_room :: "'c cv2 \<Rightarrow> nat \<Rightarrow> 'c \<Rightarrow> pixel_room" where
  "bounding_room cv class_id contour =
     (case boundingRect cv contour of
        (x, y, w, h) \<Rightarrow>
          \<lparr>px_x = x, px_y = y, px_w = w, px_h = h, class_name = category_name class_id\<rparr>)"

text \<open>The inner loop \<^verbatim>\<open>for contour in contours\<close>; \<open>rooms\<close> is the list being appended to.\<close>

fun contour_loop :: "'c cv2 \<Rightarrow> real \<Rightarrow> nat \<Rightarrow> pixel_room list \<Rightarrow> 'c list \<Rightarrow> pixel_room list" where
  "contour_loop cv min_area class_id rooms [] = rooms"
| "contour_loop cv min_area class_id rooms (contour # contours) =
     (let area = contourArea cv contour in
      if area \<ge> min_area then
        contour_loop cv min_area class_id (rooms @ [bounding_room cv class_id contour]) contours
      else contour_loop cv min_area class_id rooms contours)"

text \<open>The outer loop \<^verbatim>\<open>for class_id in range(NUM_CLASSES)\<close> with its \<^verbatim>\<open>continue\<close>.\<close>

fun class_loop :: "'c cv2 \<Rightarrow> mask \<Rightarrow> real \<Rightarrow> pixel_room list \<Rightarrow> nat list \<Rightarrow> exn + pixel_room list" where
  "class_loop cv m min_area rooms [] = Inr rooms"
| "class_loop cv m min_area rooms (class_id # ids) =
     (if List.member [0, 2] class_id then class_loop cv m min_area rooms ids
      else
        (case findContours cv (class_mask m class_id) of
           Inl e \<Rightarrow> Inl e
         | Inr contours \<Rightarrow>
             class_loop cv m min_area (contour_loop cv min_area class_id rooms contours) ids))"

text \<open>The default of the parameter \<^verbatim>\<open>min_area\<close>, in both signatures that have it.\<close>

definition default_min_area :: real where
  "default_min_area = 500"

definition extract_rooms_from_mask :: "'c cv2 \<Rightarrow> mask \<Rightarrow> real \<Rightarrow> exn + pixel_room list" where
  "extract_rooms_from_mask cv m min_area = class_loop cv m min_area [] [0 ..< NUM_CLASSES]"

subsection \<open>Model construction\<close>

text \<open>
  What the module reads from its surroundings: whether \<^verbatim>\<open>import torch\<close> succeeded and
  with which message it failed, \<^verbatim>\<open>torch.cuda.is_available()\<close>, the directory of the
  module file, \<^verbatim>\<open>Path.exists\<close>, and the outcome of the three steps of the constructor
  that run PyTorch and may raise (\<open>None\<close>: the step raised nothing):
  \<^verbatim>\<open>ResNetUNet(num_classes=NUM_CLASSES, pretrained=False)\<close>,
  \<^verbatim>\<open>self.model.load_state_dict(torch.load(model_path, map_location=self.device))\<close>
  for a path and a device, and the placement on a device
  (\<^verbatim>\<open>self.model.to(self.device)\<close>, \<^verbatim>\<open>eval()\<close> and the two normalisation tensors).
\<close>

record torch_env =
  TORCH_AVAILABLE :: bool
  TORCH_IMPORT_ERROR :: string
  cuda_is_available :: bool
  module_dir :: string
  path_exists :: "string \<Rightarrow> bool"
  construct_network :: "exn option"
  load_state_dict :: "string \<Rightarrow> string \<Rightarrow> exn option"
  to_device :: "string \<Rightarrow> exn option"

definition get_model_cache_dir :: "torch_env \<Rightarrow> string" where
  "get_model_cache_dir env = module_dir env @ ''/models''"

text \<open>
  A constructed \<^verbatim>\<open>FloorPlanSegmentationModel\<close>. Objects are compared by identity in
  Python, so every object carries the number \<open>obj_id\<close> it got at construction. Its
  network is determined by where the weights came from; the network is in evaluation
  mode and the normalisation constants are fixed, so neither is a field.
\<close>

datatype weights = RandomInit | LoadedFrom string

record model_obj =
  obj_id :: nat
  device :: string
  image_size :: nat
  model_weights :: weights

text \<open>
  The state of the process: the global dict \<^verbatim>\<open>_floorplan_model_cache\<close>, the counter of
  objects constructed so far, and the lines printed.
\<close>

record pystate =
  floorplan_model_cache :: "string \<rightharpoonup> model_obj"
  next_id :: nat
  stdout :: "string list"

definition print :: "string \<Rightarrow> pystate \<Rightarrow> pystate" where
  "print line s = s\<lparr>stdout := stdout s @ [line]\<rparr>"

text \<open>
  \<^verbatim>\<open>FloorPlanSegmentationModel.__init__(self, model_path=None, device=None, image_size=512)\<close>.
  A failed construction leaves the lines it printed, and no object.
\<close>

definition FloorPlanSegmentationModel ::
  "torch_env \<Rightarrow> string option \<Rightarrow> string option \<Rightarrow> nat \<Rightarrow> pystate \<Rightarrow> (exn + model_obj) \<times> pystate" where
  "FloorPlanSegmentationModel env model_path dev img_size s =
     (if \<not> TORCH_AVAILABLE env then
        (Inl (RuntimeError (''PyTorch not available: '' @ TORCH_IMPORT_ERROR env)), s)
      else
        let self_device =
              (case dev of
                 Some d \<Rightarrow> if d \<noteq> [] then d
                           else (if cuda_is_available env then ''cuda'' else ''cpu'')
               | None \<Rightarrow> (if cuda_is_available env then ''cuda'' else ''cpu''))
        in
          case construct_network env of
            Some e \<Rightarrow> (Inl e, s)
          | None \<Rightarrow>
              let path =
                    (case model_path of
                       None \<Rightarrow> get_model_cache_dir env @ ''/best_model.pt''
                     | Some p \<Rightarrow> p)
              in
                if path_exists env path then
                  (let s1 = print (''[FloorPlanModel] Loading weights from '' @ path) s in
                   case load_state_dict env path self_device of
                     Some e \<Rightarrow> (Inl e, s1)
                   | None \<Rightarrow>
                       (case to_device env self_device of
                          Some e \<Rightarrow> (Inl e, s1)
                        | None \<Rightarrow>
                            (Inr \<lparr>obj_id = next_id s1, device = self_device,
                                   image_size = img_size, model_weights = LoadedFrom path\<rparr>,
                             print (''[FloorPlanModel] Initialized on '' @ self_device)
                               (s1\<lparr>next_id := Suc (next_id s1)\<rparr>))))
                else
                  (let s1 = print (''[FloorPlanModel] WARNING: No weights at '' @ path) s in
                   case to_device env self_device of
                     Some e \<Rightarrow> (Inl e, s1)
                   | None \<Rightarrow>
                       (Inr \<lparr>obj_id = next_id s1, device = self_device,
                              image_size = img_size, model_weights = RandomInit\<rparr>,
                        print (''[FloorPlanModel] Initialized on '' @ self_device)
                          (s1\<lparr>next_id := Suc (next_id s1)\<rparr>))))"

subsection \<open>Model cache\<close>

text \<open>\<^verbatim>\<open>key = model_path or "default"\<close>: \<^verbatim>\<open>None\<close> and the empty string are falsy.\<close>

definition cache_key :: "string option \<Rightarrow> string" where
  "cache_key model_path =
     (case model_path of
        Some p \<Rightarrow> if p \<noteq> [] then p else ''default''
      | None \<Rightarrow> ''default'')"

definition load_floorplan_model :: "torch_env \<Rightarrow> string option \<Rightarrow> pystate \<Rightarrow> (exn + model_obj) \<times> pystate" where
  "load_floorplan_model env model_path s =
     (let key = cache_key model_path in
      case floorplan_model_cache s key of
        Some obj \<Rightarrow> (Inr obj, s)
      | None \<Rightarrow>
          (case FloorPlanSegmentationModel env model_path None 512 s of
             (Inl e, s1) \<Rightarrow> (Inl e, s1)
           | (Inr obj, s1) \<Rightarrow>
               (Inr obj,
                s1\<lparr>floorplan_model_cache := (floorplan_model_cache s1)(key \<mapsto> obj)\<rparr>)))"

text \<open>A sequence of lookups, one after the other, with the result of each.\<close>

fun lookups :: "torch_env \<Rightarrow> string option list \<Rightarrow> pystate \<Rightarrow> (exn + model_obj) list \<times> pystate" where
  "lookups env [] s = ([], s)"
| "lookups env (p # ps) s =
     (case load_floorplan_model env p s of
        (r, s1) \<Rightarrow> (case lookups env ps s1 of (rs, s2) \<Rightarrow> (r # rs, s2)))"

subsection \<open>Primary detection strategy\<close>

text \<open>
  \<^verbatim>\<open>detect_rooms_floorplan_model(image, model=None, min_area=500)\<close>. The method
  \<^verbatim>\<open>predict\<close> runs the network of a model object on an image of any type \<open>'img\<close>; it is
  a parameter and may raise. \<open>detect_try\<close> is the body of the \<^verbatim>\<open>try\<close> block,
  the function below it adds the guard before it and the \<^verbatim>\<open>except Exception\<close> clause.
\<close>

definition detect_try ::
  "torch_env \<Rightarrow> 'c cv2 \<Rightarrow> (model_obj \<Rightarrow> 'img \<Rightarrow> exn + mask) \<Rightarrow> 'img \<Rightarrow> model_obj option \<Rightarrow> real
     \<Rightarrow> pystate \<Rightarrow> (exn + pixel_room list) \<times> pystate" where
  "detect_try env cv predict img model min_area s =
     (case (case model of
              None \<Rightarrow> load_floorplan_model env None s
            | Some obj \<Rightarrow> (Inr obj, s)) of
        (Inl e, s1) \<Rightarrow> (Inl e, s1)
      | (Inr obj, s1) \<Rightarrow>
          (case predict obj img of
             Inl e \<Rightarrow> (Inl e, s1)
           | Inr m \<Rightarrow> (extract_rooms_from_mask cv m min_area, s1)))"

definition detect_rooms_floorplan_model ::
  "torch_env \<Rightarrow> 'c cv2 \<Rightarrow> (model_obj \<Rightarrow> 'img \<Rightarrow> exn + mask) \<Rightarrow> 'img \<Rightarrow> model_obj option \<Rightarrow> real
     \<Rightarrow> pystate \<Rightarrow> (exn + pixel_room list) \<times> pystate" where
  "detect_rooms_floorplan_model env cv predict img model min_area s =
     (if \<not> TORCH_AVAILABLE env then (Inr [], s)
      else
        (case detect_try env cv predict img model min_area s of
           (Inl e, s1) \<Rightarrow>
             (Inr [], print (''[FloorPlanModel] Detection failed: '' @ str_exn e) s1)
         | (Inr rooms, s1) \<Rightarrow> (Inr rooms, s1)))"

subsection \<open>The process at start, and what holds of every state\<close>

text \<open>
  When the module has been imported the cache is the empty dict
  (\<^verbatim>\<open>_floorplan_model_cache = {}\<close>), no model object exists and nothing has been printed.
\<close>

definition initial_state :: pystate where
  "initial_state = \<lparr>floorplan_model_cache = Map.empty, next_id = 0, stdout = []\<rparr>"

text \<open>
  Cached objects were constructed earlier, and two keys never hold the same object.
  This is an invariant of \<open>load_floorplan_model\<close>, proved below; it is not a check of
  the source.
\<close>

definition cache_wf :: "pystate \<Rightarrow> bool" where
  "cache_wf s \<longleftrightarrow>
     (\<forall>k obj. floorplan_model_cache s k = Some obj \<longrightarrow> obj_id obj < next_id s) \<and>
     (\<forall>k k' obj obj'. floorplan_model_cache s k = Some obj \<and> floorplan_model_cache s k' = Some obj'
         \<and> k \<noteq> k' \<longrightarrow> obj_id obj \<noteq> obj_id obj')"

section \<open>The analysis request handler (main.py)\<close>

subsection \<open>Data of a request and of its answer\<close>

text \<open>
  The form fields of \<^verbatim>\<open>POST /analyze\<close>: the bytes of the uploaded file,
  \<^verbatim>\<open>pixels_per_metre\<close> (optional), \<^verbatim>\<open>floor_height\<close>, \<^verbatim>\<open>use_sam\<close>, \<^verbatim>\<open>building_name\<close>.
\<close>

record request =
  contents :: "nat list"
  req_pixels_per_metre :: "pyfloat option"
  floor_height :: pyfloat
  use_sam :: bool
  building_name :: string

text \<open>What \<^verbatim>\<open>gem_ai.scale.detect_scale\<close> returns, and the dict \<^verbatim>\<open>scale_info\<close>.\<close>

record scale_result =
  sr_pixels_per_metre :: pyfloat
  sr_scale_text :: string
  sr_confidence :: string

record scale_info =
  detected :: string
  pixels_per_metre :: pyfloat
  confidence :: string

text \<open>The keyword arguments of one call of \<^verbatim>\<open>GbXMLWriter.add_space\<close>.\<close>

record space =
  space_id :: string
  space_name :: string
  space_x :: pyfloat
  space_y :: pyfloat
  space_z :: pyfloat
  space_width :: pyfloat
  space_depth :: pyfloat
  space_height :: pyfloat

text \<open>
  The dict \<^verbatim>\<open>result\<close> that the handler returns and writes to \<^verbatim>\<open>result.json\<close>. These are
  all its keys: \<open>detection_method\<close> is key \<^verbatim>\<open>"method"\<close>, \<open>result_image_size\<close> is
  \<^verbatim>\<open>"image_size"\<close> (width, height), \<open>result_rooms\<close> is \<^verbatim>\<open>"rooms"\<close> and the four
  \<open>file_\<close> fields are the dict under \<^verbatim>\<open>"files"\<close>.
\<close>

record files_info =
  file_preview :: string
  file_gbxml :: string
  file_obj :: string
  file_input :: string

record analysis_result =
  job_id :: string
  status :: string
  processing_time_sec :: pyfloat
  detection_method :: string
  scale :: scale_info
  result_image_size :: "int \<times> int"
  rooms_detected :: nat
  total_area_m2 :: pyfloat
  floor_height_m :: pyfloat
  result_rooms :: "pyfloat metric_room list"
  files :: files_info

text \<open>
  The collaborators of the handler, for any type \<open>'img\<close> of colour images and \<open>'gray\<close>
  of grayscale images: the module constants \<^verbatim>\<open>SAM_AVAILABLE\<close> and \<^verbatim>\<open>RESULTS_DIR\<close>, the
  eight characters taken from \<^verbatim>\<open>uuid.uuid4()\<close>, the seconds between the two readings of
  the clock, the built-in \<^verbatim>\<open>sum\<close> on a list of floats (CPython adds them from left to
  right up to version 3.11 and with a compensated sum from 3.12 on, so its value is
  left to the interpreter), OpenCV's decoder (\<open>None\<close> for an undecodable file), colour
  conversion and array shape (height, width), and the functions imported from \<^verbatim>\<open>gem_ai.scale\<close>,
  \<^verbatim>\<open>gem_ai.detector\<close> and \<^verbatim>\<open>gem_ai.exporter\<close>, none of which is part of the two
  modules embedded here. Each of them may raise. \<open>detect_rooms_advanced\<close> takes
  image, grayscale image, \<^verbatim>\<open>method\<close>, \<^verbatim>\<open>use_sam\<close> and \<^verbatim>\<open>debug_dir\<close>; \<open>detect_rooms\<close>
  the same without \<^verbatim>\<open>method\<close>. \<open>gbxml_save\<close> stands for \<^verbatim>\<open>GbXMLWriter.save\<close> on a writer
  with the given building name and spaces. The decoder, \<^verbatim>\<open>mkdir\<close> and \<^verbatim>\<open>cv2.imwrite\<close>
  are taken to return normally.
\<close>

record ('img, 'gray) environment =
  SAM_AVAILABLE :: bool
  RESULTS_DIR :: string
  uuid8 :: string
  elapsed :: pyfloat
  float_sum :: "pyfloat list \<Rightarrow> pyfloat"
  imdecode :: "nat list \<Rightarrow> 'img option"
  cvtColor_gray :: "'img \<Rightarrow> 'gray"
  gray_shape :: "'gray \<Rightarrow> int \<times> int"
  detect_scale :: "'gray \<Rightarrow> exn + scale_result"
  detect_rooms_advanced :: "'img \<Rightarrow> 'gray \<Rightarrow> string \<Rightarrow> bool \<Rightarrow> string \<Rightarrow> exn + pixel_room list"
  detect_rooms :: "'img \<Rightarrow> 'gray \<Rightarrow> bool \<Rightarrow> string \<Rightarrow> exn + pixel_room list"
  gbxml_save :: "string \<Rightarrow> space list \<Rightarrow> string \<Rightarrow> exn option"
  export_obj :: "pyfloat metric_room list \<Rightarrow> pyfloat \<Rightarrow> string \<Rightarrow> exn option"
  write_text :: "string \<Rightarrow> analysis_result \<Rightarrow> exn option"

text \<open>
  What the handler does to the outside world, in order: directories and files
  written, collaborators called (with their arguments).
\<close>

datatype ('img, 'gray) event =
    Mkdir string
  | Imwrite string
  | Call_detect_scale 'gray
  | Call_detect_rooms_advanced 'img 'gray string bool string
  | Call_detect_rooms 'img 'gray bool string
  | Call_gbxml_save string "space list" string
  | Call_export_obj "pyfloat metric_room list" pyfloat string
  | Call_write_text string analysis_result

text \<open>
  Statements run one after the other: the second runs only if the first raised
  nothing, and the events of both are kept.
\<close>

definition and_then ::
  "'ev list \<times> (exn + 'a) \<Rightarrow> ('a \<Rightarrow> 'ev list \<times> (exn + 'b)) \<Rightarrow> 'ev list \<times> (exn + 'b)" where
  "and_then m f =
     (case m of
        (tr, Inl e) \<Rightarrow> (tr, Inl e)
      | (tr, Inr a) \<Rightarrow> (case f a of (tr', r) \<Rightarrow> (tr @ tr', r)))"

subsection \<open>Formatting and rounding\<close>

text \<open>Decimal digits of a natural number, and the format \<^verbatim>\<open>{i:03d}\<close>.\<close>

fun str_nat :: "nat \<Rightarrow> string" where
  "str_nat n =
     (if n < 10 then [''0123456789'' ! n]
      else str_nat (n div 10) @ [''0123456789'' ! (n mod 10)])"

declare str_nat.simps [simp del]

definition format_03d :: "nat \<Rightarrow> string" where
  "format_03d i = (let s = str_nat i in replicate (3 - length s) (CHR ''0'') @ s)"

text \<open>
  Decimal rounding of an exact number: to the nearest multiple of \<open>10\<^sup>-\<^sup>n\<close>, a tie
  going to the even one.
\<close>

definition py_round :: "real \<Rightarrow> nat \<Rightarrow> real" where
  "py_round v ndigits =
     (let scaled = v * 10 ^ ndigits;
          f = \<lfloor>scaled\<rfloor>;
          d = scaled - of_int f
      in of_int (if d < 1 / 2 then f
                 else if d > 1 / 2 then f + 1
                 else if even f then f else f + 1) / 10 ^ ndigits)"

text \<open>
  \<^verbatim>\<open>round(a, ndigits)\<close> on a float, for the two small positive \<^verbatim>\<open>ndigits\<close> of the
  handler: an infinity or a NaN is returned as it is; a finite float is rounded in
  decimal on its exact value, and the float nearest to that decimal is returned.
\<close>

definition float_round :: "pyfloat \<Rightarrow> nat \<Rightarrow> pyfloat" where
  "float_round a ndigits =
     (case a of
        Finite v \<Rightarrow> fl (py_round v ndigits)
      | _ \<Rightarrow> a)"

subsection \<open>Stages of the handler\<close>

text \<open>Scale detection: the branch on \<^verbatim>\<open>pixels_per_metre is None\<close>.\<close>

definition scale_detection ::
  "('img, 'gray) environment \<Rightarrow> 'gray \<Rightarrow> pyfloat option
     \<Rightarrow> ('img, 'gray) event list \<times> (exn + pyfloat \<times> scale_info)" where
  "scale_detection env gray ppm_form =
     (case ppm_form of
        None \<Rightarrow>
          (case detect_scale env gray of
             Inl e \<Rightarrow> ([Call_detect_scale gray], Inl e)
           | Inr res \<Rightarrow>
               (let ppm = sr_pixels_per_metre res in
                ([Call_detect_scale gray],
                 Inr (ppm, \<lparr>detected = sr_scale_text res, pixels_per_metre = ppm,
                             confidence = sr_confidence res\<rparr>))))
      | Some p \<Rightarrow>
          ([], Inr (p, \<lparr>detected = ''user_provided'', pixels_per_metre = p,
                         confidence = ''user''\<rparr>)))"

text \<open>
  Room detection: the call of \<^verbatim>\<open>detect_rooms_advanced\<close> with \<^verbatim>\<open>method="floorplan"\<close> and,
  under \<^verbatim>\<open>if not rooms_px\<close>, the call of \<^verbatim>\<open>detect_rooms\<close>. The value is that of
  \<^verbatim>\<open>rooms_px\<close> after both.
\<close>

definition room_detection ::
  "('img, 'gray) environment \<Rightarrow> 'img \<Rightarrow> 'gray \<Rightarrow> bool \<Rightarrow> string
     \<Rightarrow> ('img, 'gray) event list \<times> (exn + pixel_room list)" where
  "room_detection env img gray sam job_dir =
     (let flag = (sam \<and> SAM_AVAILABLE env) in
      case detect_rooms_advanced env img gray ''floorplan'' flag job_dir of
        Inl e \<Rightarrow> ([Call_detect_rooms_advanced img gray ''floorplan'' flag job_dir], Inl e)
      | Inr rooms_px \<Rightarrow>
          if rooms_px = [] then
            ([Call_detect_rooms_advanced img gray ''floorplan'' flag job_dir,
              Call_detect_rooms img gray flag job_dir],
             detect_rooms env img gray flag job_dir)
          else
            ([Call_detect_rooms_advanced img gray ''floorplan'' flag job_dir], Inr rooms_px))"

text \<open>
  The type heuristic and the loop that adds one space per room, numbered from 1. The
  literal \<^verbatim>\<open>0.1\<close> is the float nearest to one tenth. The divisor \<^verbatim>\<open>max(0.1, ..)\<close> is
  that float or a greater one, never zero, so this division does not raise.
\<close>

definition room_type :: "pyfloat metric_room \<Rightarrow> string" where
  "room_type room =
     (let aspect = ieee_div (py_max (m_width room) (m_height room))
                     (py_max (fl (1 / 10)) (py_min (m_width room) (m_height room)))
      in if float_gt aspect (Finite 5) then ''Corridor''
         else if float_gt aspect (Finite 3) then ''Circulation''
         else ''Room'')"

fun add_spaces ::
  "pyfloat \<Rightarrow> nat \<Rightarrow> space list \<Rightarrow> pyfloat metric_room list \<Rightarrow> space list" where
  "add_spaces fh i spaces [] = spaces"
| "add_spaces fh i spaces (room # rest) =
     add_spaces fh (Suc i)
       (spaces @ [\<lparr>space_id = ''space-'' @ format_03d i,
                   space_name = room_type room @ ''_'' @ format_03d i,
                   space_x = m_x room, space_y = m_y room, space_z = Finite 0,
                   space_width = m_width room,
                   space_depth = m_height room,
                   space_height = fh\<rparr>])
       rest"

text \<open>Writing the gbXML file, the OBJ file and the preview image.\<close>

definition export_artifacts ::
  "('img, 'gray) environment \<Rightarrow> request \<Rightarrow> string \<Rightarrow> pyfloat metric_room list
     \<Rightarrow> ('img, 'gray) event list \<times> (exn + unit)" where
  "export_artifacts env req job_dir rooms_m =
     (let spaces = add_spaces (floor_height req) 1 [] rooms_m;
          xml = job_dir @ ''/floorplan.xml'';
          objf = job_dir @ ''/floorplan.obj''
      in
        and_then
          ([Call_gbxml_save (building_name req) spaces xml],
           (case gbxml_save env (building_name req) spaces xml of
              Some e \<Rightarrow> Inl e | None \<Rightarrow> Inr ()))
          (\<lambda>_.
        and_then
          ([Call_export_obj rooms_m (floor_height req) objf],
           (case export_obj env rooms_m (floor_height req) objf of
              Some e \<Rightarrow> Inl e | None \<Rightarrow> Inr ()))
          (\<lambda>_. ([Imwrite (job_dir @ ''/preview.png'')], Inr ()))))"

text \<open>The dict \<^verbatim>\<open>result\<close>.\<close>

definition build_result ::
  "('img, 'gray) environment \<Rightarrow> request \<Rightarrow> string \<Rightarrow> scale_info \<Rightarrow> int \<Rightarrow> int
     \<Rightarrow> pyfloat metric_room list \<Rightarrow> analysis_result" where
  "build_result env req jid sinfo width height rooms_m =
     (let total_area = float_sum env (map area_m2 rooms_m) in
      \<lparr> job_id = jid,
        status = ''success'',
        processing_time_sec = float_round (elapsed env) 2,
        detection_method =
          (if use_sam req \<and> SAM_AVAILABLE env then ''SAM'' else ''Classical CV''),
        scale = sinfo,
        result_image_size = (width, height),
        rooms_detected = length rooms_m,
        total_area_m2 = float_round total_area 1,
        floor_height_m = floor_height req,
        result_rooms = rooms_m,
        files = \<lparr> file_preview = ''/download/'' @ jid @ ''/preview.png'',
                  file_gbxml = ''/download/'' @ jid @ ''/floorplan.xml'',
                  file_obj = ''/download/'' @ jid @ ''/floorplan.obj'',
                  file_input = ''/download/'' @ jid @ ''/input.png'' \<rparr> \<rparr>)"

subsection \<open>The handler\<close>

text \<open>The body of the \<^verbatim>\<open>try\<close> block of \<^verbatim>\<open>analyze_floorplan\<close>.\<close>

definition analyze_try ::
  "('img, 'gray) environment \<Rightarrow> request \<Rightarrow> string \<Rightarrow> string
     \<Rightarrow> ('img, 'gray) event list \<times> (exn + analysis_result)" where
  "analyze_try env req jid job_dir =
     (case imdecode env (contents req) of
        None \<Rightarrow> ([], Inl (HTTPException 400 ''Invalid image file''))
      | Some img \<Rightarrow>
          (let gray = cvtColor_gray env img in
           case gray_shape env gray of
             (height, width) \<Rightarrow>
               and_then ([Imwrite (job_dir @ ''/input.png'')], Inr ()) (\<lambda>_.
               and_then (scale_detection env gray (req_pixels_per_metre req)) (\<lambda>(ppm, sinfo).
               and_then (room_detection env img gray (use_sam req) job_dir) (\<lambda>rooms_px.
                 if rooms_px = [] then
                   ([], Inl (HTTPException 422 ''No rooms detected in image''))
                 else
                   and_then ([], to_metres height ppm [] rooms_px) (\<lambda>rooms_m.
                   and_then (export_artifacts env req job_dir rooms_m) (\<lambda>_.
                     (let result = build_result env req jid sinfo width height rooms_m;
                          json = job_dir @ ''/result.json''
                      in ([Call_write_text json result],
                          (case write_text env json result of
                             Some e \<Rightarrow> Inl e | None \<Rightarrow> Inr result))))))))))"

text \<open>
  The two \<^verbatim>\<open>except\<close> clauses: an \<^verbatim>\<open>HTTPException\<close> is raised again as it is, any other
  exception becomes status 500 with its text.
\<close>

fun reraise :: "exn \<Rightarrow> exn" where
  "reraise (HTTPException code detail) = HTTPException code detail"
| "reraise e = HTTPException 500 (str_exn e)"

definition analyze_floorplan ::
  "('img, 'gray) environment \<Rightarrow> request
     \<Rightarrow> ('img, 'gray) event list \<times> (exn + analysis_result)" where
  "analyze_floorplan env req =
     (let jid = uuid8 env;
          job_dir = RESULTS_DIR env @ ''/'' @ jid
      in case analyze_try env req jid job_dir of
           (tr, Inl e) \<Rightarrow> (Mkdir job_dir # tr, Inl (reraise e))
         | (tr, Inr result) \<Rightarrow> (Mkdir job_dir # tr, Inr result))"

section \<open>Concrete environments\<close>

text \<open>
  A machine with PyTorch and no GPU, where the default weight file exists and loads;
  the same machine without any weight file; and one where \<^verbatim>\<open>torchvision\<close> is
  missing, so that \<^verbatim>\<open>TORCH_AVAILABLE\<close> is false. \<open>demo_state1\<close> is the state of the
  first after one lookup with no path.
\<close>

definition demo_torch :: torch_env where
  "demo_torch = \<lparr>TORCH_AVAILABLE = True, TORCH_IMPORT_ERROR = ''None'',
     cuda_is_available = False, module_dir = ''/app/gem_ai'',
     path_exists = (\<lambda>p. p = ''/app/gem_ai/models/best_model.pt''),
     construct_network = None,
     load_state_dict = (\<lambda>p d. None),
     to_device = (\<lambda>d. None)\<rparr>"

definition demo_obj :: "nat \<Rightarrow> weights \<Rightarrow> model_obj" where
  "demo_obj n w = \<lparr>obj_id = n, device = ''cpu'', image_size = 512, model_weights = w\<rparr>"

definition demo_torch_no_weights :: torch_env where
  "demo_torch_no_weights = demo_torch\<lparr>path_exists := \<lambda>p. False\<rparr>"

definition demo_torch_unavailable :: torch_env where
  "demo_torch_unavailable =
     demo_torch\<lparr>TORCH_AVAILABLE := False, TORCH_IMPORT_ERROR := ''No module named torchvision''\<rparr>"

definition demo_state1 :: pystate where
  "demo_state1 =
     \<lparr>floorplan_model_cache =
         [''default'' \<mapsto> demo_obj 0 (LoadedFrom ''/app/gem_ai/models/best_model.pt'')],
       next_id = 1,
       stdout = [''[FloorPlanModel] Loading weights from /app/gem_ai/models/best_model.pt'',
                 ''[FloorPlanModel] Initialized on cpu'']\<rparr>"

text \<open>
  A mask with pixels of class 5, an OpenCV whose contours are tuples
  \<open>(x, y, w, h, area)\<close> and which finds four regions of class 5 (two of area 1000, one
  of exactly 500, one of 499.5) and none of any other class, the rooms they give with
  the default minimum area, and a network that fails on the empty image and predicts
  that mask on every other one.
\<close>

definition demo_mask :: mask where
  "demo_mask = [[5, 5, 0], [0, 2, 5]]"

definition demo_cv :: "(int \<times> int \<times> int \<times> int \<times> real) cv2" where
  "demo_cv =
     \<lparr>findContours =
        (\<lambda>cm. if cm = class_mask demo_mask 5
               then Inr [(10, 10, 40, 25, 1000), (100, 10, 40, 25, 1000),
                         (10, 100, 25, 20, 500), (200, 200, 20, 20, 499.5)]
               else Inr []),
      contourArea = (\<lambda>(x, y, w, h, a). a),
      boundingRect = (\<lambda>(x, y, w, h, a). (x, y, w, h))\<rparr>"

definition demo_rooms :: "pixel_room list" where
  "demo_rooms =
     [\<lparr>px_x = 10, px_y = 10, px_w = 40, px_h = 25, class_name = ''bedroom''\<rparr>,
      \<lparr>px_x = 100, px_y = 10, px_w = 40, px_h = 25, class_name = ''bedroom''\<rparr>,
      \<lparr>px_x = 10, px_y = 100, px_w = 25, px_h = 20, class_name = ''bedroom''\<rparr>]"

definition demo_predict :: "model_obj \<Rightarrow> nat list \<Rightarrow> exn + mask" where
  "demo_predict obj img = (if img = [] then Inl (Exception ''empty image'') else Inr demo_mask)"

text \<open>
  A deployment without SAM in which images and grayscale images are byte lists: the
  empty upload does not decode, every image is 800 by 600, the primary strategy finds
  one room in image \<open>[11]\<close> only and the hybrid detector one room in image \<open>[12]\<close> only
  (with the class name given), \<^verbatim>\<open>sum\<close> adds from left to right, the clock gives
  \<^verbatim>\<open>1.234\<close> seconds and every exporter succeeds. The request gives the scale of 100
  pixels per metre itself. \<open>demo_result\<close> is the answer to it for image \<open>[11]\<close>; its
  floats are written as fractions: \<^verbatim>\<open>5.1\<close> is \<open>2871044762448691 / 2\<^sup>4\<^sup>9\<close>, \<^verbatim>\<open>0.8\<close> is
  \<open>3602879701896397 / 2\<^sup>5\<^sup>2\<close>, \<^verbatim>\<open>0.4\<close> is half of that, \<^verbatim>\<open>0.32000000000000006\<close> is
  \<open>1441151880758559 / 2\<^sup>5\<^sup>2\<close>, \<^verbatim>\<open>1.23\<close> is \<open>2769713770832855 / 2\<^sup>5\<^sup>1\<close> and \<^verbatim>\<open>0.3\<close> is
  \<open>5404319552844595 / 2\<^sup>5\<^sup>4\<close>.
\<close>

definition demo_room :: "string \<Rightarrow> pixel_room" where
  "demo_room cn = \<lparr>px_x = 100, px_y = 50, px_w = 80, px_h = 40, class_name = cn\<rparr>"

definition demo_env :: "string \<Rightarrow> (nat list, nat list) environment" where
  "demo_env cn =
     \<lparr>SAM_AVAILABLE = False,
      RESULTS_DIR = ''/tmp/gem-ai-results'',
      uuid8 = ''1a2b3c4d'',
      elapsed = Finite (694680242521899 / 562949953421312),
      float_sum = (\<lambda>vs. fold (\<lambda>v acc. float_add acc v) vs (Finite 0)),
      imdecode = (\<lambda>bytes. if bytes = [] then None else Some bytes),
      cvtColor_gray = (\<lambda>img. img),
      gray_shape = (\<lambda>gray. (600, 800)),
      detect_scale =
        (\<lambda>gray. Inr \<lparr>sr_pixels_per_metre = Finite 100, sr_scale_text = ''1:100'',
                        sr_confidence = ''high''\<rparr>),
      detect_rooms_advanced =
        (\<lambda>img gray meth sam dir. Inr (if img = [11] then [demo_room cn] else [])),
      detect_rooms =
        (\<lambda>img gray sam dir. Inr (if img = [12] then [demo_room cn] else [])),
      gbxml_save = (\<lambda>name spaces path. None),
      export_obj = (\<lambda>rooms_m fh path. None),
      write_text = (\<lambda>path result. None)\<rparr>"

definition demo_request :: "nat list \<Rightarrow> request" where
  "demo_request bytes =
     \<lparr>contents = bytes, req_pixels_per_metre = Some (Finite 100), floor_height = Finite 3,
      use_sam = True, building_name = ''Building''\<rparr>"

definition demo_rooms_m :: "pyfloat metric_room list" where
  "demo_rooms_m =
     [\<lparr>m_x = Finite 1,
       m_y = Finite (2871044762448691 / 562949953421312),
       m_width = Finite (3602879701896397 / 4503599627370496),
       m_height = Finite (3602879701896397 / 9007199254740992),
       area_m2 = Finite (1441151880758559 / 4503599627370496)\<rparr>]"

definition demo_result :: analysis_result where
  "demo_result =
     \<lparr>job_id = ''1a2b3c4d'',
      status = ''success'',
      processing_time_sec = Finite (2769713770832855 / 2251799813685248),
      detection_method = ''Classical CV'',
      scale = \<lparr>detected = ''user_provided'', pixels_per_metre = Finite 100, confidence = ''user''\<rparr>,
      result_image_size = (800, 600),
      rooms_detected = 1,
      total_area_m2 = Finite (5404319552844595 / 18014398509481984),
      floor_height_m = Finite 3,
      result_rooms = demo_rooms_m,
      files = \<lparr>file_preview = ''/download/1a2b3c4d/preview.png'',
               file_gbxml = ''/download/1a2b3c4d/floorplan.xml'',
               file_obj = ''/download/1a2b3c4d/floorplan.obj'',
               file_input = ''/download/1a2b3c4d/input.png''\<rparr>\<rparr>"

section \<open>Properties of the float arithmetic\<close>

lemma find_exponent_eq:
  "e0 \<le> e \<Longrightarrow> nat (e - e0) \<le> n \<Longrightarrow> 2 powi e \<le> a \<or> e = e0 \<Longrightarrow> a < 2 powi (e + 1)
     \<Longrightarrow> find_exponent n e0 a = e"
proof (induction n arbitrary: e0)
  case 0
  then show ?case by simp
next
  case (Suc n)
  show ?case
  proof (cases "a < 2 powi (e0 + 1)")
    case True
    have "e = e0"
    proof (rule ccontr)
      assume "e \<noteq> e0"
      with Suc.prems have "e0 + 1 \<le> e" "2 powi e \<le> a" by auto
      moreover from \<open>e0 + 1 \<le> e\<close> have "(2::real) powi (e0 + 1) \<le> 2 powi e"
        by (intro power_int_increasing) auto
      ultimately show False using True by linarith
    qed
    with True show ?thesis by simp
  next
    case False
    have lt: "e0 < e"
    proof (rule ccontr)
      assume "\<not> e0 < e"
      with Suc.prems have "e = e0" by simp
      with Suc.prems False show False by simp
    qed
    then have "find_exponent n (e0 + 1) a = e"
      using Suc.prems by (intro Suc.IH) auto
    with False show ?thesis by simp
  qed
qed

lemma find_exponent_spec:
  "a < 2 powi (e0 + int n + 1) \<Longrightarrow>
     e0 \<le> find_exponent n e0 a \<and> find_exponent n e0 a \<le> e0 + int n
     \<and> a < 2 powi (find_exponent n e0 a + 1)
     \<and> (find_exponent n e0 a = e0 \<or> 2 powi (find_exponent n e0 a) \<le> a)"
proof (induction n arbitrary: e0)
  case 0
  then show ?case by simp
next
  case (Suc n)
  show ?case
  proof (cases "a < 2 powi (e0 + 1)")
    case True
    then show ?thesis by simp
  next
    case False
    from Suc.prems have "a < 2 powi (e0 + 1 + int n + 1)" by (simp add: add.commute add.left_commute)
    from Suc.IH [OF this] False show ?thesis by auto
  qed
qed

text \<open>The exponent of a magnitude in a given binade, and of any magnitude below \<open>2\<^sup>1\<^sup>0\<^sup>2\<^sup>4\<close>.\<close>

lemma exponent_eq:
  "2 powi e \<le> a \<Longrightarrow> a < 2 powi (e + 1) \<Longrightarrow> - 1022 \<le> e \<Longrightarrow> e \<le> 1023 \<Longrightarrow> exponent a = e"
  unfolding exponent_def by (rule find_exponent_eq) auto

lemma exponent_spec:
  assumes "a < 2 powi 1024"
  shows "- 1022 \<le> exponent a \<and> exponent a \<le> 1023 \<and> a < 2 powi (exponent a + 1)
     \<and> (exponent a = - 1022 \<or> 2 powi (exponent a) \<le> a)"
proof -
  from assms have "a < 2 powi (- 1022 + int 2045 + 1)" by simp
  from find_exponent_spec [OF this]
  have s: "- 1022 \<le> find_exponent 2045 (- 1022) a" "find_exponent 2045 (- 1022) a \<le> 1023"
    "a < 2 powi (find_exponent 2045 (- 1022) a + 1)"
    "find_exponent 2045 (- 1022) a = - 1022 \<or> 2 powi (find_exponent 2045 (- 1022) a) \<le> a"
    by simp_all
  from s(1) s(2) s(3) s(4) have "find_exponent 2046 (- 1022) a = find_exponent 2045 (- 1022) a"
    by (intro find_exponent_eq) auto
  with s show ?thesis by (simp add: exponent_def)
qed

lemma round64_normal:
  "2 powi e \<le> \<bar>v\<bar> \<Longrightarrow> \<bar>v\<bar> < 2 powi (e + 1) \<Longrightarrow> - 1022 \<le> e \<Longrightarrow> e \<le> 1023
     \<Longrightarrow> round64 v = of_int (round_half_even (v / 2 powi (e - 52))) * 2 powi (e - 52)"
  by (simp add: round64_def exponent_eq Let_def)

lemma round_half_even_of_int [simp]: "round_half_even (of_int i) = i"
  by (simp add: round_half_even_def)

text \<open>An \<^verbatim>\<open>int\<close> of magnitude at most \<open>2\<^sup>5\<^sup>3\<close> is a float, and converts to itself.\<close>

lemma round64_of_int:
  assumes "\<bar>i\<bar> \<le> 2 ^ 53"
  shows "round64 (of_int i) = of_int i"
proof (cases "i = 0")
  case True
  then show ?thesis by (simp add: round64_def round_half_even_def)
next
  case False
  let ?a = "\<bar>real_of_int i\<bar>"
  let ?e = "exponent ?a"
  from assms have le: "?a \<le> 2 ^ 53"
    by (metis of_int_abs of_int_le_iff of_int_numeral of_int_power)
  from False have "1 \<le> \<bar>i\<bar>" by simp
  then have "real_of_int 1 \<le> real_of_int \<bar>i\<bar>" by (simp only: of_int_le_iff)
  then have ge: "1 \<le> ?a" by simp
  from le have "?a < 2 powi 1024" by (simp add: power_int_def) 
  from exponent_spec [OF this]
  have s: "- 1022 \<le> ?e" "?e \<le> 1023" "?a < 2 powi (?e + 1)" "?e = - 1022 \<or> 2 powi ?e \<le> ?a"
    by simp_all
  have e0: "0 \<le> ?e"
  proof (rule ccontr)
    assume "\<not> 0 \<le> ?e"
    then have "?e + 1 \<le> 0" by simp
    then have "(2::real) powi (?e + 1) \<le> 2 powi 0" by (intro power_int_increasing) auto
    with s(3) ge show False by simp
  qed
  with s(4) have lo: "2 powi ?e \<le> ?a" by auto
  have e53: "?e \<le> 53"
  proof (rule ccontr)
    assume "\<not> ?e \<le> 53"
    then have "54 \<le> ?e" by simp
    then have "(2::real) powi 54 \<le> 2 powi ?e" by (intro power_int_increasing) auto
    with lo le show False by (simp add: power_int_def)
  qed
  have "\<exists>k. real_of_int i / 2 powi (?e - 52) = of_int k"
  proof (cases "?e \<le> 52")
    case True
    then have "(2::real) powi (?e - 52) = 1 / 2 ^ nat (52 - ?e)"
      by (simp add: power_int_def divide_simps)
    then have "real_of_int i / 2 powi (?e - 52) = of_int (i * 2 ^ nat (52 - ?e))" by simp
    then show ?thesis by blast
  next
    case False
    with e53 have e: "?e = 53" by simp
    with lo le have "?a = 2 ^ 53" by (simp add: power_int_def)
    then have "real_of_int i = 2 ^ 53 \<or> real_of_int i = - (2 ^ 53)" by (simp add: abs_if split: if_splits)
    then have "real_of_int i / 2 powi (?e - 52) = of_int (2 ^ 52) \<or>
               real_of_int i / 2 powi (?e - 52) = of_int (- (2 ^ 52))"
      by (auto simp: e)
    then show ?thesis by blast
  qed
  then obtain k where k: "real_of_int i / 2 powi (?e - 52) = of_int k" by blast
  have "round64 (of_int i) = of_int k * 2 powi (?e - 52)"
    by (simp add: round64_def Let_def k)
  also have "\<dots> = real_of_int i / 2 powi (?e - 52) * 2 powi (?e - 52)" by (simp add: k)
  also have "\<dots> = of_int i" by simp
  finally show ?thesis .
qed

lemma float_of_int_exact:
  assumes "\<bar>i\<bar> \<le> 2 ^ 53"
  shows "float_of_int i = Inr (Finite (of_int i))"
proof -
  from assms have "\<bar>real_of_int i\<bar> \<le> 2 ^ 53"
    by (metis of_int_abs of_int_le_iff of_int_numeral of_int_power)
  then have "real_of_int i < 2 powi 1024" "- (2 powi 1024) < real_of_int i"
    by (simp_all add: power_int_def abs_if split: if_splits)
  then show ?thesis by (simp add: float_of_int_def fl_def round64_of_int [OF assms] Let_def)
qed

lemma int_truediv_exact:
  assumes "\<bar>i\<bar> \<le> 2 ^ 53" and "ppm \<noteq> 0"
  shows "int_truediv i (Finite ppm) = Inr (fl (of_int i / ppm))"
  using assms(2) by (simp add: int_truediv_def float_of_int_exact [OF assms(1)] float_truediv_def)

text \<open>Rounding of the numbers of the examples.\<close>

lemma fl_examples:
  "fl (4 / 5) = Finite (3602879701896397 / 4503599627370496)"
  "fl (2 / 5) = Finite (3602879701896397 / 9007199254740992)"
  "fl (51 / 10) = Finite (2871044762448691 / 562949953421312)"
  "fl (8 / 25) = Finite (5764607523034235 / 18014398509481984)"
  "fl (3 / 10) = Finite (5404319552844595 / 18014398509481984)"
  "fl (123 / 100) = Finite (2769713770832855 / 2251799813685248)"
  "fl (617 / 500) = Finite (694680242521899 / 562949953421312)"
  "fl 1 = Finite 1"
  "fl 2 = Finite 2"
  using round64_normal [of "-1" "4 / 5"] round64_normal [of "-2" "2 / 5"]
    round64_normal [of "2" "51 / 10"] round64_normal [of "-2" "8 / 25"]
    round64_normal [of "-2" "3 / 10"] round64_normal [of "0" "123 / 100"]
    round64_normal [of "0" "617 / 500"] round64_normal [of "0" "1"] round64_normal [of "1" "2"]
  by (simp_all add: fl_def round_half_even_def power_int_minus Let_def)

lemma fl_product:
  "fl (12980742146337070512478121581609 / 40564819207303340847894502572032)
     = Finite (1441151880758559 / 4503599627370496)"
  using round64_normal [of "-2" "12980742146337070512478121581609 / 40564819207303340847894502572032"]
  by (simp add: fl_def round_half_even_def power_int_minus Let_def)

lemma fl_area:
  "fl (1441151880758559 / 4503599627370496) = Finite (1441151880758559 / 4503599627370496)"
  using round64_normal [of "-2" "1441151880758559 / 4503599627370496"]
  by (simp add: fl_def round_half_even_def power_int_minus Let_def)

lemma fl_tenth: "fl (1 / 10) = Finite (3602879701896397 / 36028797018963968)"
  using round64_normal [of "-4" "1 / 10"]
  by (simp add: fl_def round_half_even_def power_int_minus Let_def)

section \<open>Properties of the projection\<close>



lemma project_float_exact:
  assumes "ppm \<noteq> 0"
    and "\<bar>px_x r\<bar> \<le> 2 ^ 53" and "\<bar>px_w r\<bar> \<le> 2 ^ 53" and "\<bar>px_h r\<bar> \<le> 2 ^ 53"
    and "\<bar>height - px_y r - px_h r\<bar> \<le> 2 ^ 53"
  shows "project_float height (Finite ppm) r =
     Inr \<lparr>m_x = fl (real_of_int (px_x r) / ppm),
          m_y = fl (real_of_int (height - px_y r - px_h r) / ppm),
          m_width = fl (real_of_int (px_w r) / ppm),
          m_height = fl (real_of_int (px_h r) / ppm),
          area_m2 = float_mul (fl (real_of_int (px_w r) / ppm)) (fl (real_of_int (px_h r) / ppm))\<rparr>"
  unfolding project_float_def Let_def
  by (simp only: int_truediv_exact [OF assms(2) assms(1)] int_truediv_exact [OF assms(3) assms(1)]
      int_truediv_exact [OF assms(4) assms(1)] int_truediv_exact [OF assms(5) assms(1)]
      sum.case)

lemma project_float_scenario:
  "project_float 600 (Finite 100)
       \<lparr>px_x = 100, px_y = 50, px_w = 80, px_h = 40, class_name = c\<rparr>
     = Inr \<lparr>m_x = Finite 1,
            m_y = Finite (2871044762448691 / 562949953421312),
            m_width = Finite (3602879701896397 / 4503599627370496),
            m_height = Finite (3602879701896397 / 9007199254740992),
            area_m2 = Finite (1441151880758559 / 4503599627370496)\<rparr>"
proof -
  have "project_float 600 (Finite 100)
       \<lparr>px_x = 100, px_y = 50, px_w = 80, px_h = 40, class_name = c\<rparr>
     = Inr \<lparr>m_x = fl 1, m_y = fl (51 / 10), m_width = fl (4 / 5), m_height = fl (2 / 5),
            area_m2 = float_mul (fl (4 / 5)) (fl (2 / 5))\<rparr>"
    using project_float_exact [of 100
        "\<lparr>px_x = 100, px_y = 50, px_w = 80, px_h = 40, class_name = c\<rparr>" 600]
    by simp
  then show ?thesis by (simp add: fl_examples fl_product)
qed



text \<open>
  The scenario as the claim has it: the area that the handler computes is not the
  float \<^verbatim>\<open>0.32\<close>, nor the number \<open>0.32\<close>, but the next float above.
\<close>

theorem project_metric_rect_counterexample:
  "(0::real) < 100
   \<and> (\<exists>m. project_float 600 (Finite 100)
              \<lparr>px_x = 100, px_y = 50, px_w = 80, px_h = 40, class_name = ''bedroom''\<rparr> = Inr m
          \<and> m_width m = fl (4 / 5) \<and> m_height m = fl (2 / 5)
          \<and> area_m2 m = Finite (1441151880758559 / 4503599627370496)
          \<and> area_m2 m \<noteq> fl (8 / 25)
          \<and> area_m2 m \<noteq> Finite (8 / 25))"
  by (simp add: project_float_scenario fl_examples)



section \<open>Properties of the model cache\<close>

lemma print_fields [simp]:
  "floorplan_model_cache (print l s) = floorplan_model_cache s"
  "next_id (print l s) = next_id s"
  "stdout (print l s) = stdout s @ [l]"
  by (simp_all add: print_def)

lemma ctor_Inr:
  "FloorPlanSegmentationModel env p d n s = (Inr obj, s1) \<Longrightarrow>
     obj_id obj = next_id s \<and> next_id s1 = Suc (next_id s)
     \<and> floorplan_model_cache s1 = floorplan_model_cache s"
  by (auto simp: FloorPlanSegmentationModel_def Let_def split: if_splits option.splits)

lemma ctor_Inl:
  "FloorPlanSegmentationModel env p d n s = (Inl e, s1) \<Longrightarrow>
     next_id s1 = next_id s \<and> floorplan_model_cache s1 = floorplan_model_cache s"
  by (auto simp: FloorPlanSegmentationModel_def Let_def split: if_splits option.splits)

lemma load_hit:
  "floorplan_model_cache s (cache_key p) = Some obj \<Longrightarrow> load_floorplan_model env p s = (Inr obj, s)"
  by (simp add: load_floorplan_model_def)

lemma load_cases:
  "load_floorplan_model env p s = (r, s1) \<Longrightarrow>
     (\<exists>obj. floorplan_model_cache s (cache_key p) = Some obj \<and> r = Inr obj \<and> s1 = s)
   \<or> (floorplan_model_cache s (cache_key p) = None \<and>
        (\<exists>e. r = Inl e \<and> FloorPlanSegmentationModel env p None 512 s = (Inl e, s1)))
   \<or> (floorplan_model_cache s (cache_key p) = None \<and>
        (\<exists>obj s0. r = Inr obj \<and> FloorPlanSegmentationModel env p None 512 s = (Inr obj, s0)
            \<and> s1 = s0\<lparr>floorplan_model_cache := (floorplan_model_cache s0)(cache_key p \<mapsto> obj)\<rparr>))"
  by (auto simp: load_floorplan_model_def Let_def split: option.splits prod.splits sum.splits)

lemma load_Inr:
  "load_floorplan_model env p s = (Inr obj, s1) \<Longrightarrow> floorplan_model_cache s1 (cache_key p) = Some obj"
  by (auto dest!: load_cases)

lemma load_mono:
  assumes "load_floorplan_model env p s = (r, s1)"
  shows "floorplan_model_cache s \<subseteq>\<^sub>m floorplan_model_cache s1"
  using load_cases [OF assms]
proof (elim disjE exE conjE)
  fix obj assume "s1 = s" then show ?thesis by simp
next
  fix e assume "FloorPlanSegmentationModel env p None 512 s = (Inl e, s1)"
  from ctor_Inl [OF this] show ?thesis by simp
next
  fix obj s0
  assume n: "floorplan_model_cache s (cache_key p) = None"
    and c: "FloorPlanSegmentationModel env p None 512 s = (Inr obj, s0)"
    and s1: "s1 = s0\<lparr>floorplan_model_cache := (floorplan_model_cache s0)(cache_key p \<mapsto> obj)\<rparr>"
  from ctor_Inr [OF c] have "floorplan_model_cache s0 = floorplan_model_cache s" by simp
  with n s1 show ?thesis by (auto simp: map_le_def)
qed

lemma load_wf:
  assumes wf: "cache_wf s" and l: "load_floorplan_model env p s = (r, s1)"
  shows "cache_wf s1"
  using load_cases [OF l]
proof (elim disjE exE conjE)
  fix obj assume "s1 = s" with wf show ?thesis by simp
next
  fix e assume "FloorPlanSegmentationModel env p None 512 s = (Inl e, s1)"
  from ctor_Inl [OF this] wf show ?thesis by (simp add: cache_wf_def)
next
  fix obj s0
  assume n: "floorplan_model_cache s (cache_key p) = None"
    and c: "FloorPlanSegmentationModel env p None 512 s = (Inr obj, s0)"
    and s1: "s1 = s0\<lparr>floorplan_model_cache := (floorplan_model_cache s0)(cache_key p \<mapsto> obj)\<rparr>"
  from ctor_Inr [OF c] have *: "floorplan_model_cache s0 = floorplan_model_cache s"
    "obj_id obj = next_id s" "next_id s0 = Suc (next_id s)" by simp_all
  from wf have lt: "\<And>k o'. floorplan_model_cache s k = Some o' \<Longrightarrow> obj_id o' < next_id s"
    and inj: "\<And>k k' o1 o2. floorplan_model_cache s k = Some o1 \<Longrightarrow> floorplan_model_cache s k' = Some o2
         \<Longrightarrow> k \<noteq> k' \<Longrightarrow> obj_id o1 \<noteq> obj_id o2"
    by (auto simp: cache_wf_def)
  show ?thesis
    unfolding cache_wf_def s1
    using * inj by (auto simp: less_Suc_eq dest: lt)
qed

lemma lookups_mono:
  "lookups env ps s = (rs, s1) \<Longrightarrow> floorplan_model_cache s \<subseteq>\<^sub>m floorplan_model_cache s1"
proof (induction ps arbitrary: s rs s1)
  case Nil then show ?case by simp
next
  case (Cons p ps)
  obtain r sa where l: "load_floorplan_model env p s = (r, sa)" by (cases "load_floorplan_model env p s")
  obtain rs' sb where k: "lookups env ps sa = (rs', sb)" by (cases "lookups env ps sa")
  from Cons.prems l k have "s1 = sb" by simp
  with load_mono [OF l] Cons.IH [OF k] show ?case by (auto intro: map_le_trans)
qed

lemma lookups_wf:
  "cache_wf s \<Longrightarrow> lookups env ps s = (rs, s1) \<Longrightarrow> cache_wf s1"
proof (induction ps arbitrary: s rs s1)
  case Nil then show ?case by simp
next
  case (Cons p ps)
  obtain r sa where l: "load_floorplan_model env p s = (r, sa)" by (cases "load_floorplan_model env p s")
  obtain rs' sb where k: "lookups env ps sa = (rs', sb)" by (cases "lookups env ps sa")
  from Cons.prems l k have "s1 = sb" by simp
  with load_wf [OF Cons.prems(1) l] Cons.IH [OF _ k] show ?case by simp
qed

lemma wf_init: "cache_wf initial_state" by (simp add: cache_wf_def initial_state_def)

lemma reachable_wf: "cache_wf (snd (lookups env ps initial_state))"
  using lookups_wf [OF wf_init, of env ps] by (cases "lookups env ps initial_state") simp

lemma load_again:
  assumes "load_floorplan_model env p s = (Inr obj, s1)"
    and "lookups env qs s1 = (rs, s2)" and "cache_key p' = cache_key p"
  shows "load_floorplan_model env p' s2 = (Inr obj, s2)"
proof -
  from load_Inr [OF assms(1)] have "floorplan_model_cache s1 (cache_key p) = Some obj" .
  with lookups_mono [OF assms(2)] have "floorplan_model_cache s2 (cache_key p) = Some obj"
    by (auto simp: map_le_def dom_def)
  with assms(3) show ?thesis by (simp add: load_hit)
qed

lemma load_distinct:
  assumes wf: "cache_wf s"
    and a: "load_floorplan_model env p s = (Inr o1, s1)"
    and b: "lookups env qs s1 = (rs, s2)"
    and c: "load_floorplan_model env q s2 = (Inr o2, s3)"
    and ne: "cache_key q \<noteq> cache_key p"
  shows "obj_id o2 \<noteq> obj_id o1"
proof -
  have wf3: "cache_wf s3" using load_wf [OF lookups_wf [OF load_wf [OF wf a] b] c] .
  from load_Inr [OF a] have "floorplan_model_cache s1 (cache_key p) = Some o1" .
  with lookups_mono [OF b] have "floorplan_model_cache s2 (cache_key p) = Some o1"
    by (auto simp: map_le_def dom_def)
  with load_mono [OF c] have 1: "floorplan_model_cache s3 (cache_key p) = Some o1"
    by (auto simp: map_le_def dom_def)
  from load_Inr [OF c] have 2: "floorplan_model_cache s3 (cache_key q) = Some o2" .
  from wf3 1 2 ne show ?thesis unfolding cache_wf_def by blast
qed

lemmas demo_simps = load_floorplan_model_def FloorPlanSegmentationModel_def cache_key_def
  initial_state_def print_def get_model_cache_dir_def Let_def demo_obj_def

lemma demo_first:
  "load_floorplan_model demo_torch None initial_state =
     (Inr (demo_obj 0 (LoadedFrom ''/app/gem_ai/models/best_model.pt'')),
      \<lparr>floorplan_model_cache =
         [''default'' \<mapsto> demo_obj 0 (LoadedFrom ''/app/gem_ai/models/best_model.pt'')],
       next_id = 1,
       stdout = [''[FloorPlanModel] Loading weights from /app/gem_ai/models/best_model.pt'',
                 ''[FloorPlanModel] Initialized on cpu'']\<rparr>)"
  by (simp add: demo_simps demo_torch_def)

lemma demo_noweights:
  "load_floorplan_model (demo_torch\<lparr>path_exists := \<lambda>p. False\<rparr>) None initial_state =
     (Inr (demo_obj 0 RandomInit),
      \<lparr>floorplan_model_cache = [''default'' \<mapsto> demo_obj 0 RandomInit],
       next_id = 1,
       stdout = [''[FloorPlanModel] WARNING: No weights at /app/gem_ai/models/best_model.pt'',
                 ''[FloorPlanModel] Initialized on cpu'']\<rparr>)"
  by (simp add: demo_simps demo_torch_def)

lemma demo_notorch:
  "load_floorplan_model (demo_torch\<lparr>TORCH_AVAILABLE := False, TORCH_IMPORT_ERROR := ''No module named torchvision''\<rparr>) None initial_state =
     (Inl (RuntimeError ''PyTorch not available: No module named torchvision''), initial_state)"
  by (simp add: demo_simps demo_torch_def)

lemma ctor_obj:
  "FloorPlanSegmentationModel env p None n s = (Inr obj, s1) \<Longrightarrow>
     device obj = (if cuda_is_available env then ''cuda'' else ''cpu'')
   \<and> image_size obj = n
   \<and> model_weights obj =
       (let path = (case p of None \<Rightarrow> get_model_cache_dir env @ ''/best_model.pt'' | Some q \<Rightarrow> q)
        in if path_exists env path then LoadedFrom path else RandomInit)
   \<and> stdout s1 = stdout s @
       (let path = (case p of None \<Rightarrow> get_model_cache_dir env @ ''/best_model.pt'' | Some q \<Rightarrow> q)
        in [if path_exists env path then ''[FloorPlanModel] Loading weights from '' @ path
            else ''[FloorPlanModel] WARNING: No weights at '' @ path,
            ''[FloorPlanModel] Initialized on ''
              @ (if cuda_is_available env then ''cuda'' else ''cpu'')])"
  by (auto simp: FloorPlanSegmentationModel_def Let_def print_def split: if_splits option.splits)

lemma ctor_succeeds:
  assumes "TORCH_AVAILABLE env" and "construct_network env = None"
    and "\<And>path. load_state_dict env path (if cuda_is_available env then ''cuda'' else ''cpu'') = None"
    and "to_device env (if cuda_is_available env then ''cuda'' else ''cpu'') = None"
  shows "\<exists>obj s1. FloorPlanSegmentationModel env p None n s = (Inr obj, s1)"
  using assms by (simp add: FloorPlanSegmentationModel_def Let_def split: option.splits)

lemma ctor_unavailable:
  "\<not> TORCH_AVAILABLE env \<Longrightarrow>
     FloorPlanSegmentationModel env p d n s
       = (Inl (RuntimeError (''PyTorch not available: '' @ TORCH_IMPORT_ERROR env)), s)"
  by (simp add: FloorPlanSegmentationModel_def)

text \<open>
  Claim C9, amended. In every state \<open>s\<close> reached from the start of the process by a
  sequence of lookups: a lookup that misses and returns has constructed a new object
  (its identity is that of no cached object), placed on the device, with the weights
  of the weight file if that file exists, and with the initial random weights and the
  printed line \<^verbatim>\<open>WARNING: No weights at ...\<close> if not, and has stored it under the key; a
  lookup that raises stores nothing, and a lookup that misses without PyTorch raises
  \<^verbatim>\<open>RuntimeError\<close>; when PyTorch is available and neither the construction of the
  network, nor the loading of weights, nor the placement on the device raises, a lookup
  returns; once a lookup has returned an object, every later lookup with the same key
  returns the same object and leaves the state as it is, whatever lookups came in
  between; and no sequence of lookups removes or replaces an entry of the cache.
\<close>

theorem load_floorplan_model_cache:
  assumes "s = snd (lookups env ps initial_state)"
  shows
   "(floorplan_model_cache s (cache_key p) = None
       \<and> load_floorplan_model env p s = (Inr obj, s1) \<longrightarrow>
         obj_id obj = next_id s
       \<and> (\<forall>k old. floorplan_model_cache s k = Some old \<longrightarrow> obj_id old \<noteq> obj_id obj)
       \<and> device obj = (if cuda_is_available env then ''cuda'' else ''cpu'')
       \<and> model_weights obj =
           (let path = (case p of None \<Rightarrow> get_model_cache_dir env @ ''/best_model.pt''
                                | Some q \<Rightarrow> q)
            in if path_exists env path then LoadedFrom path else RandomInit)
       \<and> stdout s1 = stdout s @
           (let path = (case p of None \<Rightarrow> get_model_cache_dir env @ ''/best_model.pt''
                                | Some q \<Rightarrow> q)
            in [if path_exists env path then ''[FloorPlanModel] Loading weights from '' @ path
                else ''[FloorPlanModel] WARNING: No weights at '' @ path,
                ''[FloorPlanModel] Initialized on ''
                  @ (if cuda_is_available env then ''cuda'' else ''cpu'')])
       \<and> floorplan_model_cache s1 = (floorplan_model_cache s)(cache_key p \<mapsto> obj))
  \<and> (load_floorplan_model env p s = (Inl e, s1) \<longrightarrow>
         floorplan_model_cache s1 = floorplan_model_cache s)
  \<and> (floorplan_model_cache s (cache_key p) = None \<and> \<not> TORCH_AVAILABLE env \<longrightarrow>
         load_floorplan_model env p s
           = (Inl (RuntimeError (''PyTorch not available: '' @ TORCH_IMPORT_ERROR env)), s))
  \<and> (TORCH_AVAILABLE env \<and> construct_network env = None
       \<and> (\<forall>path. load_state_dict env path (if cuda_is_available env then ''cuda'' else ''cpu'') = None)
       \<and> to_device env (if cuda_is_available env then ''cuda'' else ''cpu'') = None
       \<longrightarrow> (\<exists>obj' s'. load_floorplan_model env p s = (Inr obj', s')))
  \<and> (load_floorplan_model env p s = (Inr obj, s1) \<and> lookups env qs s1 = (rs, s2)
       \<and> cache_key p' = cache_key p \<longrightarrow>
         load_floorplan_model env p' s2 = (Inr obj, s2))
  \<and> (lookups env qs s = (rs, s2) \<longrightarrow>
         floorplan_model_cache s \<subseteq>\<^sub>m floorplan_model_cache s2)"
proof -
  have wf: "cache_wf s" unfolding assms by (rule reachable_wf)
  have miss: "obj_id obj = next_id s
       \<and> (\<forall>k old. floorplan_model_cache s k = Some old \<longrightarrow> obj_id old \<noteq> obj_id obj)
       \<and> device obj = (if cuda_is_available env then ''cuda'' else ''cpu'')
       \<and> model_weights obj =
           (let path = (case p of None \<Rightarrow> get_model_cache_dir env @ ''/best_model.pt''
                                | Some q \<Rightarrow> q)
            in if path_exists env path then LoadedFrom path else RandomInit)
       \<and> stdout s1 = stdout s @
           (let path = (case p of None \<Rightarrow> get_model_cache_dir env @ ''/best_model.pt''
                                | Some q \<Rightarrow> q)
            in [if path_exists env path then ''[FloorPlanModel] Loading weights from '' @ path
                else ''[FloorPlanModel] WARNING: No weights at '' @ path,
                ''[FloorPlanModel] Initialized on ''
                  @ (if cuda_is_available env then ''cuda'' else ''cpu'')])
       \<and> floorplan_model_cache s1 = (floorplan_model_cache s)(cache_key p \<mapsto> obj)"
    if n: "floorplan_model_cache s (cache_key p) = None"
      and l: "load_floorplan_model env p s = (Inr obj, s1)"
  proof -
    from load_cases [OF l] n obtain s0 where
      c: "FloorPlanSegmentationModel env p None 512 s = (Inr obj, s0)"
      and s1: "s1 = s0\<lparr>floorplan_model_cache := (floorplan_model_cache s0)(cache_key p \<mapsto> obj)\<rparr>"
      by auto
    from ctor_Inr [OF c] have i: "obj_id obj = next_id s"
      "floorplan_model_cache s0 = floorplan_model_cache s" by simp_all
    from wf have lt: "\<And>k old. floorplan_model_cache s k = Some old \<Longrightarrow> obj_id old < next_id s"
      unfolding cache_wf_def by blast
    have fresh: "\<forall>k old. floorplan_model_cache s k = Some old \<longrightarrow> obj_id old \<noteq> obj_id obj"
      using lt i(1) by fastforce
    from s1 have out: "stdout s1 = stdout s0" by simp
    from i fresh ctor_obj [OF c] s1 out show ?thesis by simp
  qed
  have fail: "floorplan_model_cache s1 = floorplan_model_cache s"
    if l: "load_floorplan_model env p s = (Inl e, s1)"
    using load_cases [OF l] by (auto dest: ctor_Inl)
  have off: "load_floorplan_model env p s
           = (Inl (RuntimeError (''PyTorch not available: '' @ TORCH_IMPORT_ERROR env)), s)"
    if "floorplan_model_cache s (cache_key p) = None" "\<not> TORCH_AVAILABLE env"
    using that by (simp add: load_floorplan_model_def ctor_unavailable)
  have succ: "\<exists>obj' s'. load_floorplan_model env p s = (Inr obj', s')"
    if "TORCH_AVAILABLE env" "construct_network env = None"
      and "\<forall>path. load_state_dict env path (if cuda_is_available env then ''cuda'' else ''cpu'') = None"
      and "to_device env (if cuda_is_available env then ''cuda'' else ''cpu'') = None"
  proof (cases "floorplan_model_cache s (cache_key p)")
    case (Some a) then show ?thesis by (simp add: load_hit)
  next
    case None
    from ctor_succeeds [of env p 512 s] that obtain obj' s0 where
      "FloorPlanSegmentationModel env p None 512 s = (Inr obj', s0)" by auto
    with None show ?thesis by (simp add: load_floorplan_model_def)
  qed
  have again: "load_floorplan_model env p' s2 = (Inr obj, s2)"
    if "load_floorplan_model env p s = (Inr obj, s1)" and "lookups env qs s1 = (rs, s2)"
      and "cache_key p' = cache_key p"
    using load_again [OF that] .
  have mono: "floorplan_model_cache s \<subseteq>\<^sub>m floorplan_model_cache s2"
    if "lookups env qs s = (rs, s2)"
    using lookups_mono [OF that] .
  from miss fail off succ again mono show ?thesis by blast
qed

lemma demo_first':
  "load_floorplan_model demo_torch None initial_state =
     (Inr (demo_obj 0 (LoadedFrom ''/app/gem_ai/models/best_model.pt'')), demo_state1)"
  by (simp add: demo_first demo_state1_def)

lemma demo_other:
  "fst (load_floorplan_model demo_torch (Some ''/app/gem_ai/models/best_model.pt'') demo_state1)
     = Inr (demo_obj 1 (LoadedFrom ''/app/gem_ai/models/best_model.pt''))"
  by (simp add: demo_simps demo_torch_def demo_state1_def)

text \<open>
  The amended claim at work: the first lookup without a path constructs object 0 from
  the default weight file and stores it under \<^verbatim>\<open>"default"\<close>; after a lookup of another
  key the lookup without a path still returns object 0.
\<close>

theorem load_floorplan_model_cache_witness:
  "initial_state = snd (lookups demo_torch [] initial_state)
   \<and> floorplan_model_cache initial_state (cache_key None) = None
   \<and> load_floorplan_model demo_torch None initial_state =
       (Inr (demo_obj 0 (LoadedFrom ''/app/gem_ai/models/best_model.pt'')), demo_state1)
   \<and> model_weights (demo_obj 0 (LoadedFrom ''/app/gem_ai/models/best_model.pt''))
       = LoadedFrom ''/app/gem_ai/models/best_model.pt''
   \<and> floorplan_model_cache demo_state1 ''default''
       = Some (demo_obj 0 (LoadedFrom ''/app/gem_ai/models/best_model.pt''))
   \<and> stdout demo_state1
       = [''[FloorPlanModel] Loading weights from /app/gem_ai/models/best_model.pt'',
          ''[FloorPlanModel] Initialized on cpu'']
   \<and> load_floorplan_model demo_torch None
         (snd (lookups demo_torch [Some ''/app/gem_ai/models/best_model.pt''] demo_state1))
       = (Inr (demo_obj 0 (LoadedFrom ''/app/gem_ai/models/best_model.pt'')),
          snd (lookups demo_torch [Some ''/app/gem_ai/models/best_model.pt''] demo_state1))"
proof -
  let ?obj = "demo_obj 0 (LoadedFrom ''/app/gem_ai/models/best_model.pt'')"
  let ?qs = "[Some ''/app/gem_ai/models/best_model.pt'']"
  have a: "initial_state = snd (lookups demo_torch [] initial_state)" by simp
  have n: "floorplan_model_cache initial_state (cache_key None) = None"
    by (simp add: initial_state_def)
  have k: "lookups demo_torch ?qs demo_state1
      = (fst (lookups demo_torch ?qs demo_state1), snd (lookups demo_torch ?qs demo_state1))"
    by simp
  note t = load_floorplan_model_cache [OF a, where p = None and obj = ?obj
      and ?s1.0 = demo_state1 and p' = None and qs = ?qs
      and rs = "fst (lookups demo_torch ?qs demo_state1)"
      and ?s2.0 = "snd (lookups demo_torch ?qs demo_state1)"]
  from t n demo_first' k
  have 1: "floorplan_model_cache demo_state1
             = (floorplan_model_cache initial_state)(cache_key None \<mapsto> ?obj)"
    and 2: "load_floorplan_model demo_torch None (snd (lookups demo_torch ?qs demo_state1))
             = (Inr ?obj, snd (lookups demo_torch ?qs demo_state1))"
    by blast+
  from 1 have 3: "floorplan_model_cache demo_state1 ''default'' = Some ?obj"
    by (simp add: cache_key_def)
  have 4: "model_weights ?obj = LoadedFrom ''/app/gem_ai/models/best_model.pt''"
    by (simp add: demo_obj_def)
  from t n demo_first'
  have "stdout demo_state1 = stdout initial_state @
           (let path = (case None of None \<Rightarrow> get_model_cache_dir demo_torch @ ''/best_model.pt''
                                | Some q \<Rightarrow> q)
            in [if path_exists demo_torch path
                then ''[FloorPlanModel] Loading weights from '' @ path
                else ''[FloorPlanModel] WARNING: No weights at '' @ path,
                ''[FloorPlanModel] Initialized on ''
                  @ (if cuda_is_available demo_torch then ''cuda'' else ''cpu'')])"
    by blast
  then have 5: "stdout demo_state1
       = [''[FloorPlanModel] Loading weights from /app/gem_ai/models/best_model.pt'',
          ''[FloorPlanModel] Initialized on cpu'']"
    by (simp add: demo_torch_def get_model_cache_dir_def initial_state_def)
  from a n demo_first' 2 3 4 5 show ?thesis by blast
qed

text \<open>
  Claim C9 as stated fails: without a weight file the first lookup returns and stores
  a model whose weights were never loaded, and without PyTorch the first lookup raises
  and stores nothing.
\<close>

theorem load_floorplan_model_cache_counterexample:
  "load_floorplan_model demo_torch_no_weights None initial_state =
     (Inr (demo_obj 0 RandomInit),
      \<lparr>floorplan_model_cache = [''default'' \<mapsto> demo_obj 0 RandomInit],
       next_id = 1,
       stdout = [''[FloorPlanModel] WARNING: No weights at /app/gem_ai/models/best_model.pt'',
                 ''[FloorPlanModel] Initialized on cpu'']\<rparr>)
   \<and> load_floorplan_model demo_torch_unavailable None initial_state =
       (Inl (RuntimeError ''PyTorch not available: No module named torchvision''), initial_state)
   \<and> floorplan_model_cache initial_state ''default'' = None"
  by (simp add: demo_simps demo_torch_def demo_torch_no_weights_def demo_torch_unavailable_def)

text \<open>
  Claim C10, amended. \<^verbatim>\<open>None\<close> and the empty string both give the key \<^verbatim>\<open>"default"\<close>,
  and so does the path string \<^verbatim>\<open>"default"\<close> itself: in every reachable state, once a
  lookup with one of the three has returned an object every later lookup with any of
  them returns that object. A non-empty path other than the string \<^verbatim>\<open>"default"\<close> is
  its own key, different from \<^verbatim>\<open>"default"\<close>, and a lookup with it returns an object of
  another identity than the lookup with no path does, in either order; the path of the
  default weight file is such a path.
\<close>

theorem cache_key_falsy:
  assumes "s = snd (lookups env ps initial_state)"
  shows
   "cache_key None = ''default'' \<and> cache_key (Some []) = ''default''
  \<and> cache_key (Some ''default'') = ''default''
  \<and> ((p = None \<or> p = Some [] \<or> p = Some ''default'')
       \<and> (p' = None \<or> p' = Some [] \<or> p' = Some ''default'')
       \<and> load_floorplan_model env p s = (Inr obj, s1) \<and> lookups env qs s1 = (rs, s2)
       \<longrightarrow> load_floorplan_model env p' s2 = (Inr obj, s2))
  \<and> (q \<noteq> [] \<and> q \<noteq> ''default'' \<longrightarrow>
        cache_key (Some q) = q \<and> cache_key (Some q) \<noteq> cache_key None
      \<and> ((p = None \<or> p = Some [] \<or> p = Some ''default'')
           \<and> load_floorplan_model env p s = (Inr obj, s1) \<and> lookups env qs s1 = (rs, s2)
           \<and> load_floorplan_model env (Some q) s2 = (Inr obj', s3)
           \<longrightarrow> obj_id obj' \<noteq> obj_id obj)
      \<and> ((p = None \<or> p = Some [] \<or> p = Some ''default'')
           \<and> load_floorplan_model env (Some q) s = (Inr obj, s1) \<and> lookups env qs s1 = (rs, s2)
           \<and> load_floorplan_model env p s2 = (Inr obj', s3)
           \<longrightarrow> obj_id obj' \<noteq> obj_id obj))
  \<and> get_model_cache_dir env @ ''/best_model.pt'' \<noteq> []
  \<and> get_model_cache_dir env @ ''/best_model.pt'' \<noteq> ''default''"
proof -
  have wf: "cache_wf s" unfolding assms by (rule reachable_wf)
  have keys: "cache_key None = ''default''" "cache_key (Some []) = ''default''"
    "cache_key (Some ''default'') = ''default''"
    by (simp_all add: cache_key_def)
  have falsy: "cache_key r = ''default''" if "r = None \<or> r = Some [] \<or> r = Some ''default''" for r
    using that keys by auto
  have same: "load_floorplan_model env p' s2 = (Inr obj, s2)"
    if "p = None \<or> p = Some [] \<or> p = Some ''default''"
      "p' = None \<or> p' = Some [] \<or> p' = Some ''default''"
      "load_floorplan_model env p s = (Inr obj, s1)" "lookups env qs s1 = (rs, s2)"
    using load_again [OF that(3) that(4)] falsy [OF that(1)] falsy [OF that(2)] by simp
  have tk: "cache_key (Some q) = q \<and> cache_key (Some q) \<noteq> cache_key None"
    if "q \<noteq> []" "q \<noteq> ''default''"
    using that by (simp add: cache_key_def)
  have d1: "obj_id obj' \<noteq> obj_id obj"
    if "q \<noteq> []" "q \<noteq> ''default''" "p = None \<or> p = Some [] \<or> p = Some ''default''"
      "load_floorplan_model env p s = (Inr obj, s1)" "lookups env qs s1 = (rs, s2)"
      "load_floorplan_model env (Some q) s2 = (Inr obj', s3)"
  proof -
    from that(1) that(2) falsy [OF that(3)]
    have "cache_key (Some q) \<noteq> cache_key p" by (simp add: cache_key_def)
    from load_distinct [OF wf that(4) that(5) that(6) this] show ?thesis .
  qed
  have d2: "obj_id obj' \<noteq> obj_id obj"
    if "q \<noteq> []" "q \<noteq> ''default''" "p = None \<or> p = Some [] \<or> p = Some ''default''"
      "load_floorplan_model env (Some q) s = (Inr obj, s1)" "lookups env qs s1 = (rs, s2)"
      "load_floorplan_model env p s2 = (Inr obj', s3)"
  proof -
    from that(1) that(2) falsy [OF that(3)]
    have "cache_key p \<noteq> cache_key (Some q)" by (simp add: cache_key_def)
    from load_distinct [OF wf that(4) that(5) that(6) this] show ?thesis .
  qed
  have len: "length (get_model_cache_dir env @ ''/best_model.pt'') \<noteq> length ''default''"
    by simp
  then have dp: "get_model_cache_dir env @ ''/best_model.pt'' \<noteq> []"
    "get_model_cache_dir env @ ''/best_model.pt'' \<noteq> ''default''"
    by auto
  from keys same tk d1 d2 dp show ?thesis by blast
qed

text \<open>
  The amended claim at work: after the lookup without a path, the lookup with the
  empty string returns object 0 again, and the lookup with the path of the default
  weight file constructs object 1 from the same file.
\<close>

theorem cache_key_falsy_witness:
  "initial_state = snd (lookups demo_torch [] initial_state)
   \<and> load_floorplan_model demo_torch None initial_state =
       (Inr (demo_obj 0 (LoadedFrom ''/app/gem_ai/models/best_model.pt'')), demo_state1)
   \<and> load_floorplan_model demo_torch (Some []) demo_state1 =
       (Inr (demo_obj 0 (LoadedFrom ''/app/gem_ai/models/best_model.pt'')), demo_state1)
   \<and> load_floorplan_model demo_torch (Some ''default'') demo_state1 =
       (Inr (demo_obj 0 (LoadedFrom ''/app/gem_ai/models/best_model.pt'')), demo_state1)
   \<and> ''/app/gem_ai/models/best_model.pt'' \<noteq> []
   \<and> ''/app/gem_ai/models/best_model.pt'' \<noteq> ''default''
   \<and> fst (load_floorplan_model demo_torch (Some ''/app/gem_ai/models/best_model.pt'') demo_state1)
       = Inr (demo_obj 1 (LoadedFrom ''/app/gem_ai/models/best_model.pt''))
   \<and> obj_id (demo_obj 1 (LoadedFrom ''/app/gem_ai/models/best_model.pt''))
       \<noteq> obj_id (demo_obj 0 (LoadedFrom ''/app/gem_ai/models/best_model.pt''))"
proof -
  let ?w = "LoadedFrom ''/app/gem_ai/models/best_model.pt''"
  let ?q = "''/app/gem_ai/models/best_model.pt''"
  let ?l = "load_floorplan_model demo_torch (Some ?q) demo_state1"
  have a: "initial_state = snd (lookups demo_torch [] initial_state)" by simp
  have k: "lookups demo_torch [] demo_state1 = ([], demo_state1)" by simp
  have q: "?q \<noteq> []" "?q \<noteq> ''default''" by simp_all
  have l: "?l = (Inr (demo_obj 1 ?w), snd ?l)"
    using demo_other by (metis prod.collapse)
  note t = cache_key_falsy [OF a, of None "Some []" "demo_obj 0 ?w" demo_state1 "[]" "[]"
      demo_state1 ?q "demo_obj 1 ?w" "snd ?l"]
  from t demo_first' k
  have 1: "load_floorplan_model demo_torch (Some []) demo_state1 = (Inr (demo_obj 0 ?w), demo_state1)"
    by blast
  from t demo_first' k q l
  have 2: "obj_id (demo_obj 1 ?w) \<noteq> obj_id (demo_obj 0 ?w)"
    by blast
  note t' = cache_key_falsy [OF a, of None "Some ''default''" "demo_obj 0 ?w" demo_state1 "[]" "[]"
      demo_state1]
  from t' demo_first' k
  have 3: "load_floorplan_model demo_torch (Some ''default'') demo_state1
             = (Inr (demo_obj 0 ?w), demo_state1)"
    by blast
  from a demo_first' 1 2 3 q demo_other show ?thesis by blast
qed

text \<open>
  Claim C10 as stated fails for the non-empty path \<^verbatim>\<open>"default"\<close>: it is the key of the
  falsy paths, and the lookup returns the object cached for them.
\<close>

theorem cache_key_falsy_counterexample:
  "''default'' \<noteq> []
   \<and> load_floorplan_model demo_torch None initial_state =
       (Inr (demo_obj 0 (LoadedFrom ''/app/gem_ai/models/best_model.pt'')), demo_state1)
   \<and> load_floorplan_model demo_torch (Some ''default'') demo_state1 =
       (Inr (demo_obj 0 (LoadedFrom ''/app/gem_ai/models/best_model.pt'')), demo_state1)"
  by (simp add: demo_first' load_hit cache_key_def demo_state1_def)

section \<open>Properties of the room extractor\<close>

lemma contour_loop_eq:
  "contour_loop cv min_area c acc cs
     = acc @ map (bounding_room cv c) (filter (\<lambda>k. min_area \<le> contourArea cv k) cs)"
  by (induction cs arbitrary: acc) (simp_all add: Let_def)

lemma class_loop_Inr:
  "class_loop cv m min_area acc ids = Inr rs \<Longrightarrow>
     (\<forall>c \<in> set ids. \<not> List.member [0, 2] c \<longrightarrow> (\<exists>cs. findContours cv (class_mask m c) = Inr cs))
   \<and> rs = acc @ concat (map (\<lambda>c. map (bounding_room cv c)
                 (filter (\<lambda>k. min_area \<le> contourArea cv k) (projr (findContours cv (class_mask m c)))))
               (filter (\<lambda>c. \<not> List.member [0, 2] c) ids))"
proof (induction ids arbitrary: acc)
  case Nil then show ?case by simp
next
  case (Cons c ids)
  show ?case
  proof (cases "List.member [0, 2] c")
    case True
    with Cons.prems have "class_loop cv m min_area acc ids = Inr rs" by simp
    from Cons.IH [OF this] True show ?thesis by auto
  next
    case False
    with Cons.prems obtain cs where f: "findContours cv (class_mask m c) = Inr cs"
      and l: "class_loop cv m min_area (contour_loop cv min_area c acc cs) ids = Inr rs"
      by (auto split: sum.splits)
    from Cons.IH [OF l] False f show ?thesis by (auto simp: contour_loop_eq)
  qed
qed

lemma category_name_values:
  "map category_name [0 ..< 11] =
     [''background'', ''outdoor'', ''wall'', ''kitchen'', ''living_room'', ''bedroom'',
      ''bathroom'', ''hallway'', ''storage'', ''garage'', ''other'']"
  by (simp add: category_name_def ROOM_CATEGORIES_def upt_rec)

lemma category_name_inj:
  assumes "c < 11" "c' < 11" "category_name c = category_name c'"
  shows "c = c'"
proof -
  have d: "distinct (map category_name [0 ..< 11])"
    unfolding category_name_values by simp
  then have "inj_on category_name (set [0 ..< 11])" by (simp only: distinct_map)
  with assms show ?thesis by (auto dest: inj_onD)
qed

lemma concat_pick:
  "distinct xs \<Longrightarrow> c \<in> set xs \<Longrightarrow>
     concat (map (\<lambda>c'. if c' = c then g else []) xs) = g"
  by (induction xs) auto

lemma num_classes: "NUM_CLASSES = 11"
  by (simp add: NUM_CLASSES_def ROOM_CATEGORIES_def)

lemma upt11: "[0 ..< 11] = [0, 1, 2, 3, 4, 5, 6, 7, 8, 9, 10::nat]"
  by (simp add: upt_rec)

lemma classes_upt: "filter (\<lambda>c. \<not> List.member [0, 2] c) [0 ..< NUM_CLASSES] = [1, 3, 4, 5, 6, 7, 8, 9, 10]"
  by (simp add: num_classes upt11)

lemma class_loop_total:
  "(\<And>cm. \<exists>cs. findContours cv cm = Inr cs) \<Longrightarrow> \<exists>rs. class_loop cv m min_area acc ids = Inr rs"
proof (induction ids arbitrary: acc)
  case Nil then show ?case by simp
next
  case (Cons c ids)
  from Cons.prems obtain cs where "findContours cv (class_mask m c) = Inr cs" by blast
  with Cons.IH [OF Cons.prems] show ?case by simp
qed

lemma demo_masks:
  "class_mask demo_mask c = class_mask demo_mask 5 \<longleftrightarrow> c = 5"
  by (auto simp: demo_mask_def class_mask_def)

lemma demo_find:
  "findContours demo_cv (class_mask demo_mask c) =
     (if c = 5 then Inr [(10, 10, 40, 25, 1000), (100, 10, 40, 25, 1000),
                         (10, 100, 25, 20, 500), (200, 200, 20, 20, 499.5)]
      else Inr [])"
  by (simp add: demo_cv_def demo_masks)

lemma demo_area [simp]: "contourArea demo_cv (x, y, w, h, a) = a"
  by (simp add: demo_cv_def)

lemma demo_bounding_room [simp]:
  "bounding_room demo_cv 5 (x, y, w, h, a)
     = \<lparr>px_x = x, px_y = y, px_w = w, px_h = h, class_name = ''bedroom''\<rparr>"
  by (simp add: demo_cv_def bounding_room_def category_name_def ROOM_CATEGORIES_def)

lemma demo_extract:
  "extract_rooms_from_mask demo_cv demo_mask default_min_area = Inr demo_rooms"
  by (simp add: extract_rooms_from_mask_def num_classes upt11 demo_find
      default_min_area_def demo_rooms_def)

lemma keep_iff:
  "c \<in> set (filter (\<lambda>c. \<not> List.member [0, 2] c) [0 ..< NUM_CLASSES])
     \<longleftrightarrow> c < NUM_CLASSES \<and> c \<noteq> 0 \<and> c \<noteq> 2"
  by auto

lemma extract_Inr:
  assumes "extract_rooms_from_mask cv m min_area = Inr rs"
  shows "rs = concat (map (\<lambda>c. map (bounding_room cv c)
                 (filter (\<lambda>k. min_area \<le> contourArea cv k) (projr (findContours cv (class_mask m c)))))
               (filter (\<lambda>c. \<not> List.member [0, 2] c) [0 ..< NUM_CLASSES]))"
    and "c < NUM_CLASSES \<Longrightarrow> c \<noteq> 0 \<Longrightarrow> c \<noteq> 2 \<Longrightarrow> \<exists>cs. findContours cv (class_mask m c) = Inr cs"
proof -
  note l = class_loop_Inr [OF assms [unfolded extract_rooms_from_mask_def]]
  from l show "rs = concat (map (\<lambda>c. map (bounding_room cv c)
                 (filter (\<lambda>k. min_area \<le> contourArea cv k) (projr (findContours cv (class_mask m c)))))
               (filter (\<lambda>c. \<not> List.member [0, 2] c) [0 ..< NUM_CLASSES]))"
    by simp
  assume "c < NUM_CLASSES" "c \<noteq> 0" "c \<noteq> 2"
  then have "c \<in> set [0 ..< NUM_CLASSES]" "\<not> List.member [0, 2] c" by simp_all
  with l show "\<exists>cs. findContours cv (class_mask m c) = Inr cs" by blast
qed

lemma class_name_bounding_room [simp]: "class_name (bounding_room cv c k) = category_name c"
  by (simp add: bounding_room_def split: prod.splits)

lemma in_concat_rooms:
  "r \<in> set (concat (map (\<lambda>c. map (bounding_room cv c) (F c)) cls)) \<Longrightarrow>
     \<exists>c \<in> set cls. class_name r = category_name c"
  by auto

text \<open>
  Claim C6. For every mask and every \<open>min_area\<close>, the room extractor returns (whenever
  \<^verbatim>\<open>findContours\<close> raises nothing), and no rectangle it returns has the class name
  \<^verbatim>\<open>"background"\<close> or \<^verbatim>\<open>"wall"\<close>: each carries the name of a class index other than 0
  and 2.
\<close>

theorem extract_no_background_wall:
  "((\<forall>cm. \<exists>cs. findContours cv cm = Inr cs) \<longrightarrow>
       (\<exists>rs. extract_rooms_from_mask cv m min_area = Inr rs))
   \<and> (extract_rooms_from_mask cv m min_area = Inr rs \<longrightarrow>
       (\<forall>r \<in> set rs. class_name r \<noteq> ''background'' \<and> class_name r \<noteq> ''wall''
          \<and> (\<exists>c. c < NUM_CLASSES \<and> c \<noteq> 0 \<and> c \<noteq> 2 \<and> class_name r = category_name c)))"
proof -
  have tot: "\<exists>rs. extract_rooms_from_mask cv m min_area = Inr rs"
    if "\<forall>cm. \<exists>cs. findContours cv cm = Inr cs"
    unfolding extract_rooms_from_mask_def using that by (intro class_loop_total) blast
  have cls: "class_name r \<noteq> ''background'' \<and> class_name r \<noteq> ''wall''
          \<and> (\<exists>c. c < NUM_CLASSES \<and> c \<noteq> 0 \<and> c \<noteq> 2 \<and> class_name r = category_name c)"
    if e: "extract_rooms_from_mask cv m min_area = Inr rs" and r: "r \<in> set rs" for r
  proof -
    from r have "r \<in> set (concat (map (\<lambda>c. map (bounding_room cv c)
                 (filter (\<lambda>k. min_area \<le> contourArea cv k) (projr (findContours cv (class_mask m c)))))
               (filter (\<lambda>c. \<not> List.member [0, 2] c) [0 ..< NUM_CLASSES])))"
      by (simp only: extract_Inr(1) [OF e, symmetric])
    from in_concat_rooms [OF this] obtain c
      where c: "c \<in> set (filter (\<lambda>c. \<not> List.member [0, 2] c) [0 ..< NUM_CLASSES])"
        and n: "class_name r = category_name c"
      by blast
    from c keep_iff [of c] have "c < NUM_CLASSES \<and> c \<noteq> 0 \<and> c \<noteq> 2" by blast
    then have b: "c < NUM_CLASSES" "c \<noteq> 0" "c \<noteq> 2" by blast+
    have z: "category_name 0 = ''background''" "category_name 2 = ''wall''"
      by (simp_all add: category_name_def ROOM_CATEGORIES_def)
    from b have lt: "c < 11" by (simp only: num_classes)
    have n0: "category_name c \<noteq> category_name 0"
    proof
      assume "category_name c = category_name 0"
      from category_name_inj [OF lt _ this] b show False by simp
    qed
    have n2: "category_name c \<noteq> category_name 2"
    proof
      assume "category_name c = category_name 2"
      from category_name_inj [OF lt _ this] b show False by simp
    qed
    from n0 n2 z n have "class_name r \<noteq> ''background''" "class_name r \<noteq> ''wall''" by simp_all
    with b n show ?thesis by blast
  qed
  from tot cls show ?thesis by blast
qed

text \<open>The claim on the example: three rooms, all of them bedrooms.\<close>

theorem extract_no_background_wall_witness:
  "(\<forall>cm. \<exists>cs. findContours demo_cv cm = Inr cs)
   \<and> extract_rooms_from_mask demo_cv demo_mask default_min_area = Inr demo_rooms
   \<and> demo_rooms \<noteq> []
   \<and> list_all (\<lambda>r. class_name r \<noteq> ''background'' \<and> class_name r \<noteq> ''wall'') demo_rooms"
proof -
  have f: "\<forall>cm. \<exists>cs. findContours demo_cv cm = Inr cs" by (simp add: demo_cv_def)
  have n: "demo_rooms \<noteq> []" by (simp add: demo_rooms_def)
  from extract_no_background_wall [of demo_cv demo_mask default_min_area demo_rooms] demo_extract
  have "\<forall>r \<in> set demo_rooms. class_name r \<noteq> ''background'' \<and> class_name r \<noteq> ''wall''"
    by blast
  then have "list_all (\<lambda>r. class_name r \<noteq> ''background'' \<and> class_name r \<noteq> ''wall'') demo_rooms"
    by (simp add: list_all_iff)
  with f n demo_extract show ?thesis by blast
qed

lemma filter_class_rooms:
  assumes "c < 11" "c' < 11"
  shows "filter (\<lambda>r. class_name r = category_name c) (map (bounding_room cv c') ks)
           = (if c' = c then map (bounding_room cv c) ks else [])"
proof (cases "c' = c")
  case True then show ?thesis by simp
next
  case False
  with category_name_inj [OF assms(2) assms(1)] have "category_name c' \<noteq> category_name c" by blast
  with False show ?thesis by (simp add: filter_empty_conv)
qed

lemma filter_class_extract:
  assumes e: "extract_rooms_from_mask cv m min_area = Inr rs"
    and c: "c < NUM_CLASSES" "c \<noteq> 0" "c \<noteq> 2"
  shows "filter (\<lambda>r. class_name r = category_name c) rs
           = map (bounding_room cv c)
               (filter (\<lambda>k. min_area \<le> contourArea cv k) (projr (findContours cv (class_mask m c))))"
proof -
  let ?cls = "filter (\<lambda>c. \<not> List.member [0, 2] c) [0 ..< NUM_CLASSES]"
  let ?ks = "\<lambda>c. filter (\<lambda>k. min_area \<le> contourArea cv k) (projr (findContours cv (class_mask m c)))"
  let ?P = "\<lambda>r. class_name r = category_name c"
  have d: "distinct ?cls" by simp
  from c keep_iff [of c] have i: "c \<in> set ?cls" by blast
  from c have lt: "c < 11" by (simp only: num_classes)
  have "filter ?P rs = concat (map (\<lambda>c'. filter ?P (map (bounding_room cv c') (?ks c'))) ?cls)"
    by (subst extract_Inr(1) [OF e]) (simp only: filter_concat map_map o_def)
  also have "\<dots> = concat (map (\<lambda>c'. if c' = c then map (bounding_room cv c) (?ks c) else []) ?cls)"
  proof -
    have "filter ?P (map (bounding_room cv c') (?ks c'))
            = (if c' = c then map (bounding_room cv c) (?ks c) else [])"
      if "c' \<in> set ?cls" for c'
    proof -
      from that keep_iff [of c'] have "c' < NUM_CLASSES" by blast
      then have "c' < 11" by (simp only: num_classes)
      from filter_class_rooms [OF lt this] show ?thesis by (cases "c' = c") simp_all
    qed
    then show ?thesis by (simp only: map_eq_conv [THEN iffD2] cong: map_cong)
  qed
  also have "\<dots> = map (bounding_room cv c) (?ks c)"
    by (rule concat_pick [OF d i])
  finally show ?thesis .
qed

text \<open>
  Claim C7. For every class the extractor looks at, the rectangles of that class in
  its output are, in order, the bounding boxes of exactly those contours of the class
  whose area is not below \<open>min_area\<close>: a contour with a smaller area contributes
  nothing, one whose area equals \<open>min_area\<close> is in the output.
\<close>

theorem extract_min_area_threshold:
  assumes "extract_rooms_from_mask cv m min_area = Inr rs"
    and "c < NUM_CLASSES" and "c \<noteq> 0" and "c \<noteq> 2"
  shows "\<exists>cs. findContours cv (class_mask m c) = Inr cs
     \<and> filter (\<lambda>r. class_name r = category_name c) rs
         = map (bounding_room cv c) (filter (\<lambda>k. \<not> contourArea cv k < min_area) cs)
     \<and> (\<forall>k \<in> set cs. contourArea cv k = min_area \<longrightarrow> bounding_room cv c k \<in> set rs)
     \<and> length (filter (\<lambda>r. class_name r = category_name c) rs)
         = length cs - length (filter (\<lambda>k. contourArea cv k < min_area) cs)"
proof -
  from extract_Inr(2) [OF assms] obtain cs where f: "findContours cv (class_mask m c) = Inr cs"
    by blast
  have nl: "(\<lambda>k. min_area \<le> contourArea cv k) = (\<lambda>k. \<not> contourArea cv k < min_area)"
    by (simp add: not_less)
  from filter_class_extract [OF assms] f
  have eq: "filter (\<lambda>r. class_name r = category_name c) rs
         = map (bounding_room cv c) (filter (\<lambda>k. \<not> contourArea cv k < min_area) cs)"
    by (simp add: nl)
  have incl: "bounding_room cv c k \<in> set rs" if "k \<in> set cs" "contourArea cv k = min_area" for k
  proof -
    from that have "bounding_room cv c k
        \<in> set (map (bounding_room cv c) (filter (\<lambda>k. \<not> contourArea cv k < min_area) cs))"
      by simp
    then have "bounding_room cv c k \<in> set (filter (\<lambda>r. class_name r = category_name c) rs)"
      by (simp only: eq)
    then show ?thesis by simp
  qed
  have "length (filter (\<lambda>k. \<not> contourArea cv k < min_area) cs)
          = length cs - length (filter (\<lambda>k. contourArea cv k < min_area) cs)"
    using sum_length_filter_compl [of "\<lambda>k. contourArea cv k < min_area" cs] by simp
  with eq have len: "length (filter (\<lambda>r. class_name r = category_name c) rs)
         = length cs - length (filter (\<lambda>k. contourArea cv k < min_area) cs)"
    by simp
  from f eq incl len show ?thesis by blast
qed

text \<open>
  The claim on the example, with the default \<open>min_area\<close> of 500: of the four contours
  the one of area 500 is kept and the one of area 499.5 is dropped.
\<close>

theorem extract_min_area_threshold_witness:
  "extract_rooms_from_mask demo_cv demo_mask default_min_area = Inr demo_rooms
   \<and> (5::nat) < NUM_CLASSES \<and> (5::nat) \<noteq> 0 \<and> (5::nat) \<noteq> 2
   \<and> findContours demo_cv (class_mask demo_mask 5)
       = Inr [(10, 10, 40, 25, 1000), (100, 10, 40, 25, 1000),
              (10, 100, 25, 20, 500), (200, 200, 20, 20, 499.5)]
   \<and> contourArea demo_cv (10, 100, 25, 20, 500) = default_min_area
   \<and> bounding_room demo_cv 5 (10, 100, 25, 20, 500) \<in> set demo_rooms
   \<and> contourArea demo_cv (200, 200, 20, 20, 499.5) < default_min_area
   \<and> length (filter (\<lambda>r. class_name r = category_name 5) demo_rooms) = 4 - 1"
proof -
  let ?cs = "[(10, 10, 40, 25, 1000), (100, 10, 40, 25, 1000),
              (10, 100, 25, 20, 500), (200, 200, 20, 20, 499.5)]
             :: (int \<times> int \<times> int \<times> int \<times> real) list"
  have c: "(5::nat) < NUM_CLASSES" "(5::nat) \<noteq> 0" "(5::nat) \<noteq> 2"
    by (simp_all add: num_classes)
  have f: "findContours demo_cv (class_mask demo_mask 5) = Inr ?cs" by (simp add: demo_find)
  have a: "contourArea demo_cv (10, 100, 25, 20, 500) = default_min_area"
    "contourArea demo_cv (200, 200, 20, 20, 499.5) < default_min_area"
    by (simp_all add: default_min_area_def)
  from extract_min_area_threshold [OF demo_extract c] f
  have t: "(\<forall>k \<in> set ?cs. contourArea demo_cv k = default_min_area
              \<longrightarrow> bounding_room demo_cv 5 k \<in> set demo_rooms)"
    and l: "length (filter (\<lambda>r. class_name r = category_name 5) demo_rooms)
         = length ?cs - length (filter (\<lambda>k. contourArea demo_cv k < default_min_area) ?cs)"
    by auto
  from t a(1) have i: "bounding_room demo_cv 5 (10, 100, 25, 20, 500) \<in> set demo_rooms"
    by simp
  from l have n: "length (filter (\<lambda>r. class_name r = category_name 5) demo_rooms) = 4 - 1"
    by (simp add: default_min_area_def)
  from demo_extract c f a i n show ?thesis by blast
qed

section \<open>Properties of the primary detection strategy\<close>

lemma detect_try_cases:
  "detect_try env cv predict img model min_area s =
     (case model of
        None \<Rightarrow>
          (case load_floorplan_model env None s of
             (Inl e, s1) \<Rightarrow> (Inl e, s1)
           | (Inr obj, s1) \<Rightarrow>
               (case predict obj img of
                  Inl e \<Rightarrow> (Inl e, s1)
                | Inr m \<Rightarrow> (extract_rooms_from_mask cv m min_area, s1)))
      | Some obj \<Rightarrow>
          (case predict obj img of
             Inl e \<Rightarrow> (Inl e, s)
           | Inr m \<Rightarrow> (extract_rooms_from_mask cv m min_area, s)))"
  by (simp add: detect_try_def split: option.splits prod.splits sum.splits)

text \<open>
  Claim C4, amended. The primary strategy always returns a list and never raises.
  Without the tensor runtime it returns the empty list and prints nothing. With it, an
  exception raised while loading the model, predicting or extracting rooms is printed
  as \<^verbatim>\<open>[FloorPlanModel] Detection failed: ...\<close> and the empty list is returned; if none
  is raised the rooms extracted are returned.
\<close>

theorem detect_rooms_floorplan_model_absorbs:
  "(\<exists>found s'. detect_rooms_floorplan_model env cv predict img model min_area s = (Inr found, s'))
  \<and> (\<not> TORCH_AVAILABLE env \<longrightarrow>
        detect_rooms_floorplan_model env cv predict img model min_area s = (Inr [], s))
  \<and> (TORCH_AVAILABLE env \<and> model = None \<and> load_floorplan_model env None s = (Inl e, s1) \<longrightarrow>
        detect_rooms_floorplan_model env cv predict img model min_area s
          = (Inr [], print (''[FloorPlanModel] Detection failed: '' @ str_exn e) s1))
  \<and> (TORCH_AVAILABLE env
       \<and> (model = Some obj \<and> s1 = s \<or> model = None \<and> load_floorplan_model env None s = (Inr obj, s1))
       \<longrightarrow>
        (predict obj img = Inl e \<longrightarrow>
           detect_rooms_floorplan_model env cv predict img model min_area s
             = (Inr [], print (''[FloorPlanModel] Detection failed: '' @ str_exn e) s1))
      \<and> (predict obj img = Inr m \<and> extract_rooms_from_mask cv m min_area = Inl e \<longrightarrow>
           detect_rooms_floorplan_model env cv predict img model min_area s
             = (Inr [], print (''[FloorPlanModel] Detection failed: '' @ str_exn e) s1))
      \<and> (predict obj img = Inr m \<and> extract_rooms_from_mask cv m min_area = Inr found \<longrightarrow>
           detect_rooms_floorplan_model env cv predict img model min_area s = (Inr found, s1)))"
proof -
  have ret: "\<exists>found s'. detect_rooms_floorplan_model env cv predict img model min_area s = (Inr found, s')"
    by (simp add: detect_rooms_floorplan_model_def split: prod.splits sum.splits)
  have off: "detect_rooms_floorplan_model env cv predict img model min_area s = (Inr [], s)"
    if "\<not> TORCH_AVAILABLE env"
    using that by (simp add: detect_rooms_floorplan_model_def)
  have ld: "detect_rooms_floorplan_model env cv predict img model min_area s
          = (Inr [], print (''[FloorPlanModel] Detection failed: '' @ str_exn e) s1)"
    if "TORCH_AVAILABLE env" "model = None" "load_floorplan_model env None s = (Inl e, s1)"
    using that by (simp add: detect_rooms_floorplan_model_def detect_try_cases)
  have rest: "(predict obj img = Inl e \<longrightarrow>
           detect_rooms_floorplan_model env cv predict img model min_area s
             = (Inr [], print (''[FloorPlanModel] Detection failed: '' @ str_exn e) s1))
      \<and> (predict obj img = Inr m \<and> extract_rooms_from_mask cv m min_area = Inl e \<longrightarrow>
           detect_rooms_floorplan_model env cv predict img model min_area s
             = (Inr [], print (''[FloorPlanModel] Detection failed: '' @ str_exn e) s1))
      \<and> (predict obj img = Inr m \<and> extract_rooms_from_mask cv m min_area = Inr found \<longrightarrow>
           detect_rooms_floorplan_model env cv predict img model min_area s = (Inr found, s1))"
    if "TORCH_AVAILABLE env"
      "model = Some obj \<and> s1 = s \<or> model = None \<and> load_floorplan_model env None s = (Inr obj, s1)"
    using that by (auto simp: detect_rooms_floorplan_model_def detect_try_cases)
  from ret off ld rest show ?thesis by blast
qed

text \<open>
  The amended claim on the example: the empty image makes the network raise, which is
  printed and absorbed; any other image gives the three rooms of the example.
\<close>

theorem detect_rooms_floorplan_model_absorbs_witness:
  "TORCH_AVAILABLE demo_torch
   \<and> load_floorplan_model demo_torch None initial_state
       = (Inr (demo_obj 0 (LoadedFrom ''/app/gem_ai/models/best_model.pt'')), demo_state1)
   \<and> demo_predict (demo_obj 0 (LoadedFrom ''/app/gem_ai/models/best_model.pt'')) []
       = Inl (Exception ''empty image'')
   \<and> detect_rooms_floorplan_model demo_torch demo_cv demo_predict [] None default_min_area
        initial_state
       = (Inr [], print ''[FloorPlanModel] Detection failed: empty image'' demo_state1)
   \<and> demo_predict (demo_obj 0 (LoadedFrom ''/app/gem_ai/models/best_model.pt'')) [7]
       = Inr demo_mask
   \<and> extract_rooms_from_mask demo_cv demo_mask default_min_area = Inr demo_rooms
   \<and> detect_rooms_floorplan_model demo_torch demo_cv demo_predict [7] None default_min_area
        initial_state
       = (Inr demo_rooms, demo_state1)"
proof -
  let ?obj = "demo_obj 0 (LoadedFrom ''/app/gem_ai/models/best_model.pt'')"
  have a: "TORCH_AVAILABLE demo_torch" by (simp add: demo_torch_def)
  have p: "demo_predict ?obj [] = Inl (Exception ''empty image'')"
    "demo_predict ?obj [7] = Inr demo_mask"
    by (simp_all add: demo_predict_def)
  from detect_rooms_floorplan_model_absorbs
    [where env = demo_torch and cv = demo_cv and predict = demo_predict and img = "[]"
       and model = None and min_area = default_min_area and s = initial_state
       and obj = ?obj and ?s1.0 = demo_state1 and e = "Exception ''empty image''"]
    a demo_first' p(1)
  have 1: "detect_rooms_floorplan_model demo_torch demo_cv demo_predict [] None default_min_area
        initial_state
       = (Inr [], print ''[FloorPlanModel] Detection failed: empty image'' demo_state1)"
    by simp
  from detect_rooms_floorplan_model_absorbs
    [where env = demo_torch and cv = demo_cv and predict = demo_predict and img = "[7]"
       and model = None and min_area = default_min_area and s = initial_state
       and obj = ?obj and ?s1.0 = demo_state1 and m = demo_mask and found = demo_rooms]
    a demo_first' p(2) demo_extract
  have 2: "detect_rooms_floorplan_model demo_torch demo_cv demo_predict [7] None default_min_area
        initial_state
       = (Inr demo_rooms, demo_state1)"
    by simp
  from a demo_first' p 1 2 demo_extract show ?thesis by blast
qed

text \<open>
  Claim C4 as stated fails in its logging: without the tensor runtime the strategy
  returns the empty list and the output stays empty.
\<close>

theorem detect_rooms_floorplan_model_absorbs_counterexample:
  "\<not> TORCH_AVAILABLE demo_torch_unavailable
   \<and> detect_rooms_floorplan_model demo_torch_unavailable demo_cv demo_predict [7] None
        default_min_area initial_state
       = (Inr [], initial_state)
   \<and> stdout initial_state = []"
  by (simp add: detect_rooms_floorplan_model_def demo_torch_unavailable_def demo_torch_def
      initial_state_def)

section \<open>Properties of the request handler\<close>

lemma and_then_Inl [simp]: "and_then (tr, Inl e) k = (tr, Inl e)"
  by (simp add: and_then_def)

lemma and_then_Inr [simp]: "and_then (tr, Inr a) k = (tr @ fst (k a), snd (k a))"
  by (simp add: and_then_def split: prod.splits)

lemma and_then_result:
  "and_then m k = (tr, Inr b) \<Longrightarrow>
     \<exists>tr1 a tr2. m = (tr1, Inr a) \<and> k a = (tr2, Inr b) \<and> tr = tr1 @ tr2"
  by (cases m) (auto simp: and_then_def split: sum.splits prod.splits)

lemma export_artifacts_Inr:
  "export_artifacts env req job_dir rooms_m = (tr, Inr u) \<Longrightarrow>
     gbxml_save env (building_name req) (add_spaces (floor_height req) 1 [] rooms_m)
        (job_dir @ ''/floorplan.xml'') = None
   \<and> export_obj env rooms_m (floor_height req) (job_dir @ ''/floorplan.obj'') = None
   \<and> tr = [Call_gbxml_save (building_name req) (add_spaces (floor_height req) 1 [] rooms_m)
              (job_dir @ ''/floorplan.xml''),
            Call_export_obj rooms_m (floor_height req) (job_dir @ ''/floorplan.obj''),
            Imwrite (job_dir @ ''/preview.png'')]"
  by (auto simp: export_artifacts_def Let_def split: option.splits)

lemma analyze_try_Inr:
  assumes "analyze_try env req jid job_dir = (tr, Inr res)"
  shows "\<exists>img height width tr_s ppm sinfo tr_d rooms_px rooms_m.
      imdecode env (contents req) = Some img
    \<and> gray_shape env (cvtColor_gray env img) = (height, width)
    \<and> scale_detection env (cvtColor_gray env img) (req_pixels_per_metre req) = (tr_s, Inr (ppm, sinfo))
    \<and> room_detection env img (cvtColor_gray env img) (use_sam req) job_dir = (tr_d, Inr rooms_px)
    \<and> rooms_px \<noteq> []
    \<and> to_metres height ppm [] rooms_px = Inr rooms_m
    \<and> res = build_result env req jid sinfo width height rooms_m
    \<and> tr = Imwrite (job_dir @ ''/input.png'') # tr_s @ tr_d @
           [Call_gbxml_save (building_name req) (add_spaces (floor_height req) 1 [] rooms_m)
              (job_dir @ ''/floorplan.xml''),
            Call_export_obj rooms_m (floor_height req) (job_dir @ ''/floorplan.obj''),
            Imwrite (job_dir @ ''/preview.png''),
            Call_write_text (job_dir @ ''/result.json'') res]"
proof -
  from assms obtain img where i: "imdecode env (contents req) = Some img"
    by (auto simp: analyze_try_def split: option.splits)
  obtain height width where g: "gray_shape env (cvtColor_gray env img) = (height, width)"
    by (cases "gray_shape env (cvtColor_gray env img)")
  let ?gray = "cvtColor_gray env img"
  let ?X = "and_then (scale_detection env ?gray (req_pixels_per_metre req)) (\<lambda>(ppm, sinfo).
               and_then (room_detection env img ?gray (use_sam req) job_dir) (\<lambda>rooms_px.
                 if rooms_px = [] then
                   ([], Inl (HTTPException 422 ''No rooms detected in image''))
                 else
                   and_then ([], to_metres height ppm [] rooms_px) (\<lambda>rooms_m.
                   and_then (export_artifacts env req job_dir rooms_m) (\<lambda>_.
                     (let result = build_result env req jid sinfo width height rooms_m;
                          json = job_dir @ ''/result.json''
                      in ([Call_write_text json result],
                          (case write_text env json result of
                             Some e \<Rightarrow> Inl e | None \<Rightarrow> Inr result)))))))"
  from assms i g have "(Imwrite (job_dir @ ''/input.png'') # fst ?X, snd ?X) = (tr, Inr res)"
    by (simp add: analyze_try_def Let_def)
  then have tr: "tr = Imwrite (job_dir @ ''/input.png'') # tl tr" and a1: "?X = (tl tr, Inr res)"
    by (auto intro: prod_eqI)
  from and_then_result [OF a1] obtain tr_s ps tr2 where
    s: "scale_detection env ?gray (req_pixels_per_metre req) = (tr_s, Inr ps)"
    and k2: "(case ps of (ppm, sinfo) \<Rightarrow>
               and_then (room_detection env img ?gray (use_sam req) job_dir) (\<lambda>rooms_px.
                 if rooms_px = [] then
                   ([], Inl (HTTPException 422 ''No rooms detected in image''))
                 else
                   and_then ([], to_metres height ppm [] rooms_px) (\<lambda>rooms_m.
                   and_then (export_artifacts env req job_dir rooms_m) (\<lambda>_.
                     (let result = build_result env req jid sinfo width height rooms_m;
                          json = job_dir @ ''/result.json''
                      in ([Call_write_text json result],
                          (case write_text env json result of
                             Some e \<Rightarrow> Inl e | None \<Rightarrow> Inr result))))))) = (tr2, Inr res)"
    and t1: "tl tr = tr_s @ tr2"
    by blast
  obtain ppm sinfo where ps: "ps = (ppm, sinfo)" by (cases ps)
  from and_then_result [OF k2 [unfolded ps prod.case]] obtain tr_d rooms_px tr3 where
    d: "room_detection env img ?gray (use_sam req) job_dir = (tr_d, Inr rooms_px)"
    and k3: "(if rooms_px = [] then
                   ([], Inl (HTTPException 422 ''No rooms detected in image''))
                 else
                   and_then ([], to_metres height ppm [] rooms_px) (\<lambda>rooms_m.
                   and_then (export_artifacts env req job_dir rooms_m) (\<lambda>_.
                     (let result = build_result env req jid sinfo width height rooms_m;
                          json = job_dir @ ''/result.json''
                      in ([Call_write_text json result],
                          (case write_text env json result of
                             Some e \<Rightarrow> Inl e | None \<Rightarrow> Inr result)))))) = (tr3, Inr res)"
    and t2: "tr2 = tr_d @ tr3"
    by blast
  from k3 have ne: "rooms_px \<noteq> []" by (auto split: if_splits)
  with k3 have k3': "and_then ([], to_metres height ppm [] rooms_px) (\<lambda>rooms_m.
                   and_then (export_artifacts env req job_dir rooms_m) (\<lambda>_.
                     (let result = build_result env req jid sinfo width height rooms_m;
                          json = job_dir @ ''/result.json''
                      in ([Call_write_text json result],
                          (case write_text env json result of
                             Some e \<Rightarrow> Inl e | None \<Rightarrow> Inr result))))) = (tr3, Inr res)"
    by simp
  from and_then_result [OF k3'] obtain rooms_m tr4 where
    m: "to_metres height ppm [] rooms_px = Inr rooms_m"
    and k4: "and_then (export_artifacts env req job_dir rooms_m) (\<lambda>_.
                     (let result = build_result env req jid sinfo width height rooms_m;
                          json = job_dir @ ''/result.json''
                      in ([Call_write_text json result],
                          (case write_text env json result of
                             Some e \<Rightarrow> Inl e | None \<Rightarrow> Inr result)))) = (tr4, Inr res)"
    and t3: "tr3 = tr4"
    by auto
  from and_then_result [OF k4] obtain tr_e u tr5 where
    e: "export_artifacts env req job_dir rooms_m = (tr_e, Inr u)"
    and k5: "(let result = build_result env req jid sinfo width height rooms_m;
                          json = job_dir @ ''/result.json''
                      in ([Call_write_text json result],
                          (case write_text env json result of
                             Some e \<Rightarrow> Inl e | None \<Rightarrow> Inr result))) = (tr5, Inr res)"
    and t4: "tr4 = tr_e @ tr5"
    by blast
  from k5 have r: "res = build_result env req jid sinfo width height rooms_m"
    and t5: "tr5 = [Call_write_text (job_dir @ ''/result.json'') res]"
    by (auto simp: Let_def split: option.splits)
  from export_artifacts_Inr [OF e] t1 t2 t3 t4 t5 tr
  have "tr = Imwrite (job_dir @ ''/input.png'') # tr_s @ tr_d @
           [Call_gbxml_save (building_name req) (add_spaces (floor_height req) 1 [] rooms_m)
              (job_dir @ ''/floorplan.xml''),
            Call_export_obj rooms_m (floor_height req) (job_dir @ ''/floorplan.obj''),
            Imwrite (job_dir @ ''/preview.png''),
            Call_write_text (job_dir @ ''/result.json'') res]"
    by (metis append.assoc append_Cons append_Nil)
  with i g s [unfolded ps] d ne m r show ?thesis by blast
qed

lemma and_then_events:
  "ev \<in> set (fst (and_then m k)) \<Longrightarrow>
     ev \<in> set (fst m) \<or> (\<exists>a. snd m = Inr a \<and> ev \<in> set (fst (k a)))"
  by (cases m; cases "snd m") (auto simp: and_then_def split: prod.splits)

lemma scale_events:
  "Call_detect_rooms a b f d \<notin> set (fst (scale_detection env gray p))"
  by (simp add: scale_detection_def Let_def split: option.splits sum.splits)

lemma export_events:
  "Call_detect_rooms a b f d \<notin> set (fst (export_artifacts env req job_dir rooms_m))"
  by (auto simp: export_artifacts_def Let_def and_then_def split: option.splits)

lemma room_detection_events:
  "Call_detect_rooms a b f d \<in> set (fst (room_detection env img gray sam job_dir)) \<Longrightarrow>
     detect_rooms_advanced env img gray ''floorplan'' (sam \<and> SAM_AVAILABLE env) job_dir = Inr []
   \<and> a = img \<and> b = gray \<and> f = (sam \<and> SAM_AVAILABLE env) \<and> d = job_dir"
  by (auto simp: room_detection_def Let_def split: sum.splits if_splits)

lemma analyze_try_events:
  assumes "Call_detect_rooms a b f d \<in> set (fst (analyze_try env req jid job_dir))"
  shows "\<exists>img. imdecode env (contents req) = Some img
     \<and> Call_detect_rooms a b f d
         \<in> set (fst (room_detection env img (cvtColor_gray env img) (use_sam req) job_dir))"
proof -
  let ?ev = "Call_detect_rooms a b f d"
  from assms obtain img where i: "imdecode env (contents req) = Some img"
    by (auto simp: analyze_try_def split: option.splits)
  obtain height width where g: "gray_shape env (cvtColor_gray env img) = (height, width)"
    by (cases "gray_shape env (cvtColor_gray env img)")
  let ?gray = "cvtColor_gray env img"
  let ?K3 = "\<lambda>ppm sinfo rooms_px.
                 if rooms_px = [] then
                   ([], Inl (HTTPException 422 ''No rooms detected in image''))
                 else
                   and_then ([], to_metres height ppm [] rooms_px) (\<lambda>rooms_m.
                   and_then (export_artifacts env req job_dir rooms_m) (\<lambda>_.
                     (let result = build_result env req jid sinfo width height rooms_m;
                          json = job_dir @ ''/result.json''
                      in ([Call_write_text json result],
                          (case write_text env json result of
                             Some e \<Rightarrow> Inl e | None \<Rightarrow> Inr result)))))"
  have k3: "?ev \<notin> set (fst (?K3 ppm sinfo rooms_px))" for ppm sinfo rooms_px
  proof
    assume in3: "?ev \<in> set (fst (?K3 ppm sinfo rooms_px))"
    then have ne: "rooms_px \<noteq> []" by (auto split: if_splits)
    with in3 and_then_events [of ?ev "([], to_metres height ppm [] rooms_px)"]
    obtain rooms_m where
      "?ev \<in> set (fst (and_then (export_artifacts env req job_dir rooms_m) (\<lambda>_.
                     (let result = build_result env req jid sinfo width height rooms_m;
                          json = job_dir @ ''/result.json''
                      in ([Call_write_text json result],
                          (case write_text env json result of
                             Some e \<Rightarrow> Inl e | None \<Rightarrow> Inr result))))))"
      by fastforce
    from and_then_events [OF this] export_events [of a b f d env req job_dir rooms_m]
    show False by (auto simp: Let_def)
  qed
  let ?X = "and_then (scale_detection env ?gray (req_pixels_per_metre req)) (\<lambda>(ppm, sinfo).
               and_then (room_detection env img ?gray (use_sam req) job_dir) (?K3 ppm sinfo))"
  from assms i g have "?ev \<in> set (Imwrite (job_dir @ ''/input.png'') # fst ?X)"
    by (simp add: analyze_try_def Let_def)
  then have "?ev \<in> set (fst ?X)" by simp
  from and_then_events [OF this] scale_events [of a b f d env ?gray "req_pixels_per_metre req"]
  obtain ps where "?ev \<in> set (fst ((\<lambda>(ppm, sinfo).
               and_then (room_detection env img ?gray (use_sam req) job_dir) (?K3 ppm sinfo)) ps))"
    by blast
  then obtain ppm sinfo where
    "?ev \<in> set (fst (and_then (room_detection env img ?gray (use_sam req) job_dir) (?K3 ppm sinfo)))"
    by (cases ps) simp
  from and_then_events [OF this] k3
  have "?ev \<in> set (fst (room_detection env img ?gray (use_sam req) job_dir))" by blast
  with i show ?thesis by blast
qed

lemma analyze_floorplan_events:
  "fst (analyze_floorplan env req)
     = Mkdir (RESULTS_DIR env @ ''/'' @ uuid8 env)
         # fst (analyze_try env req (uuid8 env) (RESULTS_DIR env @ ''/'' @ uuid8 env))"
  by (simp add: analyze_floorplan_def Let_def split: prod.splits sum.splits)

lemma analyze_floorplan_success:
  assumes "imdecode env (contents req) = Some img"
    and "gray_shape env (cvtColor_gray env img) = (height, width)"
    and "scale_detection env (cvtColor_gray env img) (req_pixels_per_metre req)
           = (tr_s, Inr (ppm, sinfo))"
    and "room_detection env img (cvtColor_gray env img) (use_sam req)
           (RESULTS_DIR env @ ''/'' @ uuid8 env) = (tr_d, Inr rooms_px)"
    and "rooms_px \<noteq> []"
    and "to_metres height ppm [] rooms_px = Inr rooms_m"
    and "gbxml_save env (building_name req) (add_spaces (floor_height req) 1 [] rooms_m)
           ((RESULTS_DIR env @ ''/'' @ uuid8 env) @ ''/floorplan.xml'') = None"
    and "export_obj env rooms_m (floor_height req)
           ((RESULTS_DIR env @ ''/'' @ uuid8 env) @ ''/floorplan.obj'') = None"
    and "write_text env ((RESULTS_DIR env @ ''/'' @ uuid8 env) @ ''/result.json'')
           (build_result env req (uuid8 env) sinfo width height rooms_m) = None"
  shows "analyze_floorplan env req =
     (Mkdir (RESULTS_DIR env @ ''/'' @ uuid8 env)
        # Imwrite ((RESULTS_DIR env @ ''/'' @ uuid8 env) @ ''/input.png'')
        # tr_s @ tr_d
        @ [Call_gbxml_save (building_name req) (add_spaces (floor_height req) 1 [] rooms_m)
             ((RESULTS_DIR env @ ''/'' @ uuid8 env) @ ''/floorplan.xml''),
           Call_export_obj rooms_m (floor_height req)
             ((RESULTS_DIR env @ ''/'' @ uuid8 env) @ ''/floorplan.obj''),
           Imwrite ((RESULTS_DIR env @ ''/'' @ uuid8 env) @ ''/preview.png''),
           Call_write_text ((RESULTS_DIR env @ ''/'' @ uuid8 env) @ ''/result.json'')
             (build_result env req (uuid8 env) sinfo width height rooms_m)],
      Inr (build_result env req (uuid8 env) sinfo width height rooms_m))"
proof -
  let ?dir = "RESULTS_DIR env @ ''/'' @ uuid8 env"
  have e: "export_artifacts env req ?dir rooms_m =
      ([Call_gbxml_save (building_name req) (add_spaces (floor_height req) 1 [] rooms_m)
             (?dir @ ''/floorplan.xml''),
        Call_export_obj rooms_m (floor_height req) (?dir @ ''/floorplan.obj''),
        Imwrite (?dir @ ''/preview.png'')], Inr ())"
    using assms(7) assms(8) by (simp add: export_artifacts_def Let_def)
  have "analyze_try env req (uuid8 env) ?dir =
     (Imwrite (?dir @ ''/input.png'') # tr_s @ tr_d
        @ [Call_gbxml_save (building_name req) (add_spaces (floor_height req) 1 [] rooms_m)
             (?dir @ ''/floorplan.xml''),
           Call_export_obj rooms_m (floor_height req) (?dir @ ''/floorplan.obj''),
           Imwrite (?dir @ ''/preview.png''),
           Call_write_text (?dir @ ''/result.json'')
             (build_result env req (uuid8 env) sinfo width height rooms_m)],
      Inr (build_result env req (uuid8 env) sinfo width height rooms_m))"
    unfolding analyze_try_def
    using assms(1-6) assms(9) e by (simp add: Let_def del: to_metres.simps)
  then show ?thesis by (simp add: analyze_floorplan_def Let_def)
qed

lemma analyze_floorplan_detection_raises:
  assumes "imdecode env (contents req) = Some img"
    and "scale_detection env (cvtColor_gray env img) (req_pixels_per_metre req)
           = (tr_s, Inr sc)"
    and "room_detection env img (cvtColor_gray env img) (use_sam req)
           (RESULTS_DIR env @ ''/'' @ uuid8 env) = (tr_d, Inl e)"
  shows "analyze_floorplan env req =
     (Mkdir (RESULTS_DIR env @ ''/'' @ uuid8 env)
        # Imwrite ((RESULTS_DIR env @ ''/'' @ uuid8 env) @ ''/input.png'')
        # tr_s @ tr_d,
      Inl (reraise e))"
proof -
  obtain sc1 sc2 where sc: "sc = (sc1, sc2)" by (cases sc)
  have "analyze_try env req (uuid8 env) (RESULTS_DIR env @ ''/'' @ uuid8 env) =
     (Imwrite ((RESULTS_DIR env @ ''/'' @ uuid8 env) @ ''/input.png'') # tr_s @ tr_d, Inl e)"
    unfolding analyze_try_def
    using assms by (simp add: Let_def sc split: prod.splits)
  then show ?thesis by (simp add: analyze_floorplan_def Let_def)
qed

text \<open>
  Claim C2. If the primary strategy returns the empty list, the handler calls the
  hybrid detector with the same colour image, grayscale image, flag and directory, and
  the list of detected rooms is whatever that call gives: when it gives rooms, these
  are the rooms that the handler converts to metres, exports and returns, and when it
  raises, the handler raises and exports nothing; and the hybrid detector is called,
  in room detection and in the whole handler, only when the primary strategy has
  returned the empty list.
\<close>

theorem room_detection_fallback:
  "(detect_rooms_advanced env img gray ''floorplan'' (sam \<and> SAM_AVAILABLE env) job_dir = Inr [] \<longrightarrow>
      room_detection env img gray sam job_dir
        = ([Call_detect_rooms_advanced img gray ''floorplan'' (sam \<and> SAM_AVAILABLE env) job_dir,
            Call_detect_rooms img gray (sam \<and> SAM_AVAILABLE env) job_dir],
           detect_rooms env img gray (sam \<and> SAM_AVAILABLE env) job_dir))
   \<and> (Call_detect_rooms a b f d \<in> set (fst (room_detection env img gray sam job_dir)) \<longrightarrow>
        detect_rooms_advanced env img gray ''floorplan'' (sam \<and> SAM_AVAILABLE env) job_dir = Inr []
        \<and> a = img \<and> b = gray \<and> f = (sam \<and> SAM_AVAILABLE env) \<and> d = job_dir)
   \<and> (Call_detect_rooms a b f d \<in> set (fst (analyze_floorplan env req)) \<longrightarrow>
        (\<exists>img. imdecode env (contents req) = Some img
           \<and> detect_rooms_advanced env img (cvtColor_gray env img) ''floorplan''
                (use_sam req \<and> SAM_AVAILABLE env) (RESULTS_DIR env @ ''/'' @ uuid8 env) = Inr []
           \<and> a = img \<and> b = cvtColor_gray env img \<and> f = (use_sam req \<and> SAM_AVAILABLE env)
           \<and> d = RESULTS_DIR env @ ''/'' @ uuid8 env))
   \<and> (imdecode env (contents req) = Some im
        \<and> gray_shape env (cvtColor_gray env im) = (height, width)
        \<and> scale_detection env (cvtColor_gray env im) (req_pixels_per_metre req)
            = (tr_s, Inr (ppm, sinfo))
        \<and> detect_rooms_advanced env im (cvtColor_gray env im) ''floorplan''
             (use_sam req \<and> SAM_AVAILABLE env) (RESULTS_DIR env @ ''/'' @ uuid8 env) = Inr []
        \<and> detect_rooms env im (cvtColor_gray env im)
             (use_sam req \<and> SAM_AVAILABLE env) (RESULTS_DIR env @ ''/'' @ uuid8 env) = Inr rooms_px
        \<and> rooms_px \<noteq> []
        \<and> to_metres height ppm [] rooms_px = Inr rooms_m
        \<and> gbxml_save env (building_name req) (add_spaces (floor_height req) 1 [] rooms_m)
             ((RESULTS_DIR env @ ''/'' @ uuid8 env) @ ''/floorplan.xml'') = None
        \<and> export_obj env rooms_m (floor_height req)
             ((RESULTS_DIR env @ ''/'' @ uuid8 env) @ ''/floorplan.obj'') = None
        \<and> write_text env ((RESULTS_DIR env @ ''/'' @ uuid8 env) @ ''/result.json'')
             (build_result env req (uuid8 env) sinfo width height rooms_m) = None
      \<longrightarrow> analyze_floorplan env req =
            (Mkdir (RESULTS_DIR env @ ''/'' @ uuid8 env)
               # Imwrite ((RESULTS_DIR env @ ''/'' @ uuid8 env) @ ''/input.png'')
               # tr_s
               @ [Call_detect_rooms_advanced im (cvtColor_gray env im) ''floorplan''
                    (use_sam req \<and> SAM_AVAILABLE env) (RESULTS_DIR env @ ''/'' @ uuid8 env),
                  Call_detect_rooms im (cvtColor_gray env im)
                    (use_sam req \<and> SAM_AVAILABLE env) (RESULTS_DIR env @ ''/'' @ uuid8 env)]
               @ [Call_gbxml_save (building_name req)
                    (add_spaces (floor_height req) 1 [] rooms_m)
                    ((RESULTS_DIR env @ ''/'' @ uuid8 env) @ ''/floorplan.xml''),
                  Call_export_obj rooms_m (floor_height req)
                    ((RESULTS_DIR env @ ''/'' @ uuid8 env) @ ''/floorplan.obj''),
                  Imwrite ((RESULTS_DIR env @ ''/'' @ uuid8 env) @ ''/preview.png''),
                  Call_write_text ((RESULTS_DIR env @ ''/'' @ uuid8 env) @ ''/result.json'')
                    (build_result env req (uuid8 env) sinfo width height rooms_m)],
             Inr (build_result env req (uuid8 env) sinfo width height rooms_m)))
   \<and> (imdecode env (contents req) = Some im
        \<and> scale_detection env (cvtColor_gray env im) (req_pixels_per_metre req)
            = (tr_s, Inr (ppm, sinfo))
        \<and> detect_rooms_advanced env im (cvtColor_gray env im) ''floorplan''
             (use_sam req \<and> SAM_AVAILABLE env) (RESULTS_DIR env @ ''/'' @ uuid8 env) = Inr []
        \<and> detect_rooms env im (cvtColor_gray env im)
             (use_sam req \<and> SAM_AVAILABLE env) (RESULTS_DIR env @ ''/'' @ uuid8 env) = Inl e
      \<longrightarrow> analyze_floorplan env req =
            (Mkdir (RESULTS_DIR env @ ''/'' @ uuid8 env)
               # Imwrite ((RESULTS_DIR env @ ''/'' @ uuid8 env) @ ''/input.png'')
               # tr_s
               @ [Call_detect_rooms_advanced im (cvtColor_gray env im) ''floorplan''
                    (use_sam req \<and> SAM_AVAILABLE env) (RESULTS_DIR env @ ''/'' @ uuid8 env),
                  Call_detect_rooms im (cvtColor_gray env im)
                    (use_sam req \<and> SAM_AVAILABLE env) (RESULTS_DIR env @ ''/'' @ uuid8 env)],
             Inl (reraise e)))"
proof -
  let ?dir = "RESULTS_DIR env @ ''/'' @ uuid8 env"
  have 1: "room_detection env img gray sam job_dir
        = ([Call_detect_rooms_advanced img gray ''floorplan'' (sam \<and> SAM_AVAILABLE env) job_dir,
            Call_detect_rooms img gray (sam \<and> SAM_AVAILABLE env) job_dir],
           detect_rooms env img gray (sam \<and> SAM_AVAILABLE env) job_dir)"
    if "detect_rooms_advanced env img gray ''floorplan'' (sam \<and> SAM_AVAILABLE env) job_dir = Inr []"
    for img gray sam job_dir
    using that by (simp add: room_detection_def Let_def)
  have 3: "\<exists>img. imdecode env (contents req) = Some img
           \<and> detect_rooms_advanced env img (cvtColor_gray env img) ''floorplan''
                (use_sam req \<and> SAM_AVAILABLE env) (RESULTS_DIR env @ ''/'' @ uuid8 env) = Inr []
           \<and> a = img \<and> b = cvtColor_gray env img \<and> f = (use_sam req \<and> SAM_AVAILABLE env)
           \<and> d = RESULTS_DIR env @ ''/'' @ uuid8 env"
    if "Call_detect_rooms a b f d \<in> set (fst (analyze_floorplan env req))"
  proof -
    from that have "Call_detect_rooms a b f d
        \<in> set (fst (analyze_try env req (uuid8 env) (RESULTS_DIR env @ ''/'' @ uuid8 env)))"
      by (simp add: analyze_floorplan_events)
    from analyze_try_events [OF this] obtain img where
      "imdecode env (contents req) = Some img"
      "Call_detect_rooms a b f d
         \<in> set (fst (room_detection env img (cvtColor_gray env img) (use_sam req)
                      (RESULTS_DIR env @ ''/'' @ uuid8 env)))"
      by blast
    with room_detection_events [OF this(2)] show ?thesis by blast
  qed
  have 4: "analyze_floorplan env req =
            (Mkdir ?dir # Imwrite (?dir @ ''/input.png'') # tr_s
               @ [Call_detect_rooms_advanced im (cvtColor_gray env im) ''floorplan''
                    (use_sam req \<and> SAM_AVAILABLE env) ?dir,
                  Call_detect_rooms im (cvtColor_gray env im)
                    (use_sam req \<and> SAM_AVAILABLE env) ?dir]
               @ [Call_gbxml_save (building_name req)
                    (add_spaces (floor_height req) 1 [] rooms_m) (?dir @ ''/floorplan.xml''),
                  Call_export_obj rooms_m (floor_height req) (?dir @ ''/floorplan.obj''),
                  Imwrite (?dir @ ''/preview.png''),
                  Call_write_text (?dir @ ''/result.json'')
                    (build_result env req (uuid8 env) sinfo width height rooms_m)],
             Inr (build_result env req (uuid8 env) sinfo width height rooms_m))"
    if h: "imdecode env (contents req) = Some im"
      "gray_shape env (cvtColor_gray env im) = (height, width)"
      "scale_detection env (cvtColor_gray env im) (req_pixels_per_metre req)
            = (tr_s, Inr (ppm, sinfo))"
      "detect_rooms_advanced env im (cvtColor_gray env im) ''floorplan''
             (use_sam req \<and> SAM_AVAILABLE env) ?dir = Inr []"
      "detect_rooms env im (cvtColor_gray env im) (use_sam req \<and> SAM_AVAILABLE env) ?dir
         = Inr rooms_px"
      "rooms_px \<noteq> []"
      "to_metres height ppm [] rooms_px = Inr rooms_m"
      "gbxml_save env (building_name req) (add_spaces (floor_height req) 1 [] rooms_m)
             (?dir @ ''/floorplan.xml'') = None"
      "export_obj env rooms_m (floor_height req) (?dir @ ''/floorplan.obj'') = None"
      "write_text env (?dir @ ''/result.json'')
             (build_result env req (uuid8 env) sinfo width height rooms_m) = None"
  proof -
    from 1 [OF h(4)] h(5)
    have rd: "room_detection env im (cvtColor_gray env im) (use_sam req) ?dir
        = ([Call_detect_rooms_advanced im (cvtColor_gray env im) ''floorplan''
              (use_sam req \<and> SAM_AVAILABLE env) ?dir,
            Call_detect_rooms im (cvtColor_gray env im) (use_sam req \<and> SAM_AVAILABLE env) ?dir],
           Inr rooms_px)"
      by simp
    from analyze_floorplan_success [OF h(1) h(2) h(3) rd h(6) h(7) h(8) h(9) h(10)]
    show ?thesis .
  qed
  have 5: "analyze_floorplan env req =
            (Mkdir ?dir # Imwrite (?dir @ ''/input.png'') # tr_s
               @ [Call_detect_rooms_advanced im (cvtColor_gray env im) ''floorplan''
                    (use_sam req \<and> SAM_AVAILABLE env) ?dir,
                  Call_detect_rooms im (cvtColor_gray env im)
                    (use_sam req \<and> SAM_AVAILABLE env) ?dir],
             Inl (reraise e))"
    if h: "imdecode env (contents req) = Some im"
      "scale_detection env (cvtColor_gray env im) (req_pixels_per_metre req)
            = (tr_s, Inr (ppm, sinfo))"
      "detect_rooms_advanced env im (cvtColor_gray env im) ''floorplan''
             (use_sam req \<and> SAM_AVAILABLE env) ?dir = Inr []"
      "detect_rooms env im (cvtColor_gray env im) (use_sam req \<and> SAM_AVAILABLE env) ?dir
         = Inl e"
  proof -
    from 1 [OF h(3)] h(4)
    have rd: "room_detection env im (cvtColor_gray env im) (use_sam req) ?dir
        = ([Call_detect_rooms_advanced im (cvtColor_gray env im) ''floorplan''
              (use_sam req \<and> SAM_AVAILABLE env) ?dir,
            Call_detect_rooms im (cvtColor_gray env im) (use_sam req \<and> SAM_AVAILABLE env) ?dir],
           Inl e)"
      by simp
    from analyze_floorplan_detection_raises [OF h(1) h(2) rd] show ?thesis .
  qed
  from 1 [of img gray sam job_dir] room_detection_events [of a b f d env img gray sam job_dir]
    3 4 5
  show ?thesis by blast
qed

lemma float_round_demo:
  "float_round (Finite (694680242521899 / 562949953421312)) 2
     = Finite (2769713770832855 / 2251799813685248)"
  "float_round (Finite (1441151880758559 / 4503599627370496)) (Suc 0)
     = Finite (5404319552844595 / 18014398509481984)"
  by (simp_all add: float_round_def py_round_def Let_def fl_examples)

lemma demo_to_metres: "to_metres 600 (Finite 100) [] [demo_room cn] = Inr demo_rooms_m"
  by (simp add: demo_room_def demo_rooms_m_def project_float_scenario)

lemma demo_build:
  "build_result (demo_env cn) (demo_request bytes) ''1a2b3c4d''
     \<lparr>detected = ''user_provided'', pixels_per_metre = Finite 100, confidence = ''user''\<rparr>
     800 600 demo_rooms_m = demo_result"
proof -
  have s: "float_sum (demo_env cn) (map area_m2 demo_rooms_m)
      = Finite (1441151880758559 / 4503599627370496)"
    by (simp add: demo_env_def demo_rooms_m_def fl_area)
  have e: "elapsed (demo_env cn) = Finite (694680242521899 / 562949953421312)"
    "SAM_AVAILABLE (demo_env cn) = False"
    by (simp_all add: demo_env_def)
  have l: "length demo_rooms_m = 1" by (simp add: demo_rooms_m_def)
  show ?thesis
    unfolding build_result_def Let_def s e l float_round_demo [simplified]
    by (simp add: demo_request_def demo_result_def float_round_demo)
qed

lemma format_001: "format_03d (Suc 0) = ''001''"
  by (simp add: format_03d_def str_nat.simps [of "Suc 0"] Let_def eval_nat_numeral)

lemma room_type_demo:
  "room_type \<lparr>m_x = Finite 1,
       m_y = Finite (2871044762448691 / 562949953421312),
       m_width = Finite (3602879701896397 / 4503599627370496),
       m_height = Finite (3602879701896397 / 9007199254740992),
       area_m2 = Finite (1441151880758559 / 4503599627370496)\<rparr> = ''Room''"
  by (simp add: room_type_def Let_def py_max_def py_min_def fl_tenth fl_examples)

lemma demo_spaces:
  "add_spaces (Finite 3) (Suc 0) [] demo_rooms_m
      = [\<lparr>space_id = ''space-001'', space_name = ''Room_001'', space_x = Finite 1,
           space_y = Finite (2871044762448691 / 562949953421312),
           space_z = Finite 0,
           space_width = Finite (3602879701896397 / 4503599627370496),
           space_depth = Finite (3602879701896397 / 9007199254740992),
           space_height = Finite 3\<rparr>]"
  by (simp add: demo_rooms_m_def format_001 room_type_demo)

text \<open>
  The answers of the example deployment to image \<open>[11]\<close>, where the primary strategy
  finds the room, and to image \<open>[12]\<close>, where only the hybrid detector does.
\<close>

lemma demo_analyze:
  "analyze_floorplan (demo_env cn) (demo_request [11]) =
     ([Mkdir ''/tmp/gem-ai-results/1a2b3c4d'',
       Imwrite ''/tmp/gem-ai-results/1a2b3c4d/input.png'',
       Call_detect_rooms_advanced [11] [11] ''floorplan'' False ''/tmp/gem-ai-results/1a2b3c4d'',
       Call_gbxml_save ''Building'' (add_spaces (Finite 3) (Suc 0) [] demo_rooms_m)
         ''/tmp/gem-ai-results/1a2b3c4d/floorplan.xml'',
       Call_export_obj demo_rooms_m (Finite 3) ''/tmp/gem-ai-results/1a2b3c4d/floorplan.obj'',
       Imwrite ''/tmp/gem-ai-results/1a2b3c4d/preview.png'',
       Call_write_text ''/tmp/gem-ai-results/1a2b3c4d/result.json'' demo_result],
      Inr demo_result)"
proof -
  let ?env = "demo_env cn"
  let ?req = "demo_request [11]"
  have u: "uuid8 ?env = ''1a2b3c4d''" "RESULTS_DIR ?env = ''/tmp/gem-ai-results''"
    "use_sam ?req = True" "building_name ?req = ''Building''" "floor_height ?req = Finite 3"
    "req_pixels_per_metre ?req = Some (Finite 100)" "cvtColor_gray ?env [11] = [11]"
    by (simp_all add: demo_env_def demo_request_def)
  have i: "imdecode ?env (contents ?req) = Some [11]"
    by (simp add: demo_env_def demo_request_def)
  have g: "gray_shape ?env (cvtColor_gray ?env [11]) = (600, 800)"
    by (simp add: demo_env_def)
  have s: "scale_detection ?env (cvtColor_gray ?env [11]) (req_pixels_per_metre ?req)
       = ([], Inr (Finite 100, \<lparr>detected = ''user_provided'', pixels_per_metre = Finite 100,
                          confidence = ''user''\<rparr>))"
    by (simp add: scale_detection_def demo_request_def)
  have d: "room_detection ?env [11] (cvtColor_gray ?env [11]) (use_sam ?req)
        (RESULTS_DIR ?env @ ''/'' @ uuid8 ?env)
      = ([Call_detect_rooms_advanced [11] [11] ''floorplan'' False
            ''/tmp/gem-ai-results/1a2b3c4d''], Inr [demo_room cn])"
    by (simp add: room_detection_def demo_env_def Let_def)
  have ne: "[demo_room cn] \<noteq> []" by simp
  have x: "gbxml_save ?env n sp p = None" "export_obj ?env rm fh p = None"
    "write_text ?env p r = None" for n sp p rm fh r
    by (simp_all add: demo_env_def)
  from analyze_floorplan_success [OF i g s d ne demo_to_metres x(1) x(2) x(3)]
  show ?thesis by (simp add: u demo_build)
qed

lemma demo_analyze_fallback:
  "analyze_floorplan (demo_env cn) (demo_request [12]) =
     ([Mkdir ''/tmp/gem-ai-results/1a2b3c4d'',
       Imwrite ''/tmp/gem-ai-results/1a2b3c4d/input.png'',
       Call_detect_rooms_advanced [12] [12] ''floorplan'' False ''/tmp/gem-ai-results/1a2b3c4d'',
       Call_detect_rooms [12] [12] False ''/tmp/gem-ai-results/1a2b3c4d'',
       Call_gbxml_save ''Building'' (add_spaces (Finite 3) (Suc 0) [] demo_rooms_m)
         ''/tmp/gem-ai-results/1a2b3c4d/floorplan.xml'',
       Call_export_obj demo_rooms_m (Finite 3) ''/tmp/gem-ai-results/1a2b3c4d/floorplan.obj'',
       Imwrite ''/tmp/gem-ai-results/1a2b3c4d/preview.png'',
       Call_write_text ''/tmp/gem-ai-results/1a2b3c4d/result.json'' demo_result],
      Inr demo_result)"
proof -
  let ?env = "demo_env cn"
  let ?req = "demo_request [12]"
  have u: "uuid8 ?env = ''1a2b3c4d''" "RESULTS_DIR ?env = ''/tmp/gem-ai-results''"
    "use_sam ?req = True" "building_name ?req = ''Building''" "floor_height ?req = Finite 3"
    "req_pixels_per_metre ?req = Some (Finite 100)" "cvtColor_gray ?env [12] = [12]"
    by (simp_all add: demo_env_def demo_request_def)
  have i: "imdecode ?env (contents ?req) = Some [12]"
    by (simp add: demo_env_def demo_request_def)
  have g: "gray_shape ?env (cvtColor_gray ?env [12]) = (600, 800)"
    by (simp add: demo_env_def)
  have s: "scale_detection ?env (cvtColor_gray ?env [12]) (req_pixels_per_metre ?req)
       = ([], Inr (Finite 100, \<lparr>detected = ''user_provided'', pixels_per_metre = Finite 100,
                          confidence = ''user''\<rparr>))"
    by (simp add: scale_detection_def demo_request_def)
  have d: "room_detection ?env [12] (cvtColor_gray ?env [12]) (use_sam ?req)
        (RESULTS_DIR ?env @ ''/'' @ uuid8 ?env)
      = ([Call_detect_rooms_advanced [12] [12] ''floorplan'' False
            ''/tmp/gem-ai-results/1a2b3c4d'',
          Call_detect_rooms [12] [12] False ''/tmp/gem-ai-results/1a2b3c4d''],
         Inr [demo_room cn])"
    by (simp add: room_detection_def demo_env_def Let_def)
  have ne: "[demo_room cn] \<noteq> []" by simp
  have x: "gbxml_save ?env n sp p = None" "export_obj ?env rm fh p = None"
    "write_text ?env p r = None" for n sp p rm fh r
    by (simp_all add: demo_env_def)
  from analyze_floorplan_success [OF i g s d ne demo_to_metres x(1) x(2) x(3)]
  show ?thesis by (simp add: u demo_build)
qed

text \<open>
  The claim on the example: for image \<open>[12]\<close> the primary strategy finds nothing, the
  rooms are those of the hybrid detector and the handler answers with them; for image
  \<open>[11]\<close> the hybrid detector is not called.
\<close>

theorem room_detection_fallback_witness:
  "detect_rooms_advanced (demo_env ''bedroom'') [12] [12] ''floorplan''
       (True \<and> SAM_AVAILABLE (demo_env ''bedroom'')) ''/tmp/job'' = Inr []
   \<and> room_detection (demo_env ''bedroom'') [12] [12] True ''/tmp/job''
       = ([Call_detect_rooms_advanced [12] [12] ''floorplan'' False ''/tmp/job'',
           Call_detect_rooms [12] [12] False ''/tmp/job''],
          Inr [demo_room ''bedroom''])
   \<and> detect_rooms (demo_env ''bedroom'') [12] [12] False ''/tmp/job'' = Inr [demo_room ''bedroom'']
   \<and> Call_detect_rooms [12] [12] False ''/tmp/job''
       \<in> set (fst (room_detection (demo_env ''bedroom'') [12] [12] True ''/tmp/job''))
   \<and> room_detection (demo_env ''bedroom'') [11] [11] True ''/tmp/job''
       = ([Call_detect_rooms_advanced [11] [11] ''floorplan'' False ''/tmp/job''],
          Inr [demo_room ''bedroom''])
   \<and> detect_rooms (demo_env ''bedroom'') [12] [12] False ''/tmp/gem-ai-results/1a2b3c4d''
       = Inr [demo_room ''bedroom'']
   \<and> to_metres 600 (Finite 100) [] [demo_room ''bedroom''] = Inr demo_rooms_m
   \<and> analyze_floorplan (demo_env ''bedroom'') (demo_request [12]) =
       ([Mkdir ''/tmp/gem-ai-results/1a2b3c4d'',
         Imwrite ''/tmp/gem-ai-results/1a2b3c4d/input.png'',
         Call_detect_rooms_advanced [12] [12] ''floorplan'' False ''/tmp/gem-ai-results/1a2b3c4d'',
         Call_detect_rooms [12] [12] False ''/tmp/gem-ai-results/1a2b3c4d'',
         Call_gbxml_save ''Building'' (add_spaces (Finite 3) (Suc 0) [] demo_rooms_m)
           ''/tmp/gem-ai-results/1a2b3c4d/floorplan.xml'',
         Call_export_obj demo_rooms_m (Finite 3) ''/tmp/gem-ai-results/1a2b3c4d/floorplan.obj'',
         Imwrite ''/tmp/gem-ai-results/1a2b3c4d/preview.png'',
         Call_write_text ''/tmp/gem-ai-results/1a2b3c4d/result.json'' demo_result],
        Inr demo_result)
   \<and> result_rooms demo_result = demo_rooms_m"
proof -
  let ?env = "demo_env ''bedroom''"
  let ?req = "demo_request [12]"
  let ?sinfo = "\<lparr>detected = ''user_provided'', pixels_per_metre = Finite 100,
                  confidence = ''user''\<rparr>"
  have f: "(True \<and> SAM_AVAILABLE ?env) = False" by (simp add: demo_env_def)
  have a: "detect_rooms_advanced ?env [12] [12] ''floorplan'' (True \<and> SAM_AVAILABLE ?env) ''/tmp/job''
      = Inr []"
    by (simp add: demo_env_def)
  have h: "detect_rooms ?env [12] [12] False ''/tmp/job'' = Inr [demo_room ''bedroom'']"
    by (simp add: demo_env_def)
  note t = room_detection_fallback [where env = ?env and img = "[12]" and gray = "[12]"
      and sam = True and job_dir = "''/tmp/job''" and req = ?req and im = "[12]"
      and height = 600 and width = 800 and tr_s = "[]" and ppm = "Finite 100"
      and sinfo = ?sinfo and rooms_px = "[demo_room ''bedroom'']" and rooms_m = demo_rooms_m]
  from t [THEN conjunct1] a
  have "room_detection ?env [12] [12] True ''/tmp/job''
        = ([Call_detect_rooms_advanced [12] [12] ''floorplan'' (True \<and> SAM_AVAILABLE ?env) ''/tmp/job'',
            Call_detect_rooms [12] [12] (True \<and> SAM_AVAILABLE ?env) ''/tmp/job''],
           detect_rooms ?env [12] [12] (True \<and> SAM_AVAILABLE ?env) ''/tmp/job'')"
    by (rule mp)
  then have r: "room_detection ?env [12] [12] True ''/tmp/job''
       = ([Call_detect_rooms_advanced [12] [12] ''floorplan'' False ''/tmp/job'',
           Call_detect_rooms [12] [12] False ''/tmp/job''],
          Inr [demo_room ''bedroom''])"
    by (simp only: f h)
  then have m: "Call_detect_rooms [12] [12] False ''/tmp/job''
       \<in> set (fst (room_detection ?env [12] [12] True ''/tmp/job''))"
    by simp
  have p: "room_detection ?env [11] [11] True ''/tmp/job''
       = ([Call_detect_rooms_advanced [11] [11] ''floorplan'' False ''/tmp/job''],
          Inr [demo_room ''bedroom''])"
    by (simp add: room_detection_def demo_env_def Let_def)
  have h2: "detect_rooms ?env [12] [12] False ''/tmp/gem-ai-results/1a2b3c4d''
       = Inr [demo_room ''bedroom'']"
    by (simp add: demo_env_def)
  have u: "uuid8 ?env = ''1a2b3c4d''" "RESULTS_DIR ?env = ''/tmp/gem-ai-results''"
    "use_sam ?req = True" "building_name ?req = ''Building''" "floor_height ?req = Finite 3"
    "req_pixels_per_metre ?req = Some (Finite 100)" "cvtColor_gray ?env [12] = [12]"
    "contents ?req = [12]" "SAM_AVAILABLE ?env = False"
    by (simp_all add: demo_env_def demo_request_def)
  have x: "imdecode ?env [12] = Some [12]" "gray_shape ?env [12] = (600, 800)"
    "detect_rooms_advanced ?env [12] [12] ''floorplan'' False ''/tmp/gem-ai-results/1a2b3c4d''
       = Inr []"
    "gbxml_save ?env n sp q = None" "export_obj ?env rm fh q = None"
    "write_text ?env q re = None" for n sp q rm fh re
    by (simp_all add: demo_env_def)
  have s: "scale_detection ?env [12] (Some (Finite 100)) = ([], Inr (Finite 100, ?sinfo))"
    by (simp add: scale_detection_def)
  note t4 = t [THEN conjunct2, THEN conjunct2, THEN conjunct2, THEN conjunct1, unfolded u]
  from t4 have an: "analyze_floorplan ?env ?req =
       ([Mkdir ''/tmp/gem-ai-results/1a2b3c4d'',
         Imwrite ''/tmp/gem-ai-results/1a2b3c4d/input.png'',
         Call_detect_rooms_advanced [12] [12] ''floorplan'' False ''/tmp/gem-ai-results/1a2b3c4d'',
         Call_detect_rooms [12] [12] False ''/tmp/gem-ai-results/1a2b3c4d'',
         Call_gbxml_save ''Building'' (add_spaces (Finite 3) (Suc 0) [] demo_rooms_m)
           ''/tmp/gem-ai-results/1a2b3c4d/floorplan.xml'',
         Call_export_obj demo_rooms_m (Finite 3) ''/tmp/gem-ai-results/1a2b3c4d/floorplan.obj'',
         Imwrite ''/tmp/gem-ai-results/1a2b3c4d/preview.png'',
         Call_write_text ''/tmp/gem-ai-results/1a2b3c4d/result.json'' demo_result],
        Inr demo_result)"
    by (simp add: x s h2 demo_to_metres demo_build del: add_spaces.simps to_metres.simps)
  have rr: "result_rooms demo_result = demo_rooms_m" by (simp add: demo_result_def)
  show ?thesis by (intro conjI a r h m p h2 demo_to_metres an rr)
qed

text \<open>
  Claim C3. When the image decodes, the scale is obtained and both the primary
  strategy and the hybrid detector return the empty list, the handler raises
  \<^verbatim>\<open>HTTPException(422, "No rooms detected in image")\<close> to its caller; the two detector
  calls are the last things it does: no third strategy, no export, no result.
\<close>

theorem no_rooms_detected:
  assumes "imdecode env (contents req) = Some img"
    and "scale_detection env (cvtColor_gray env img) (req_pixels_per_metre req) = (tr_s, Inr sc)"
    and "detect_rooms_advanced env img (cvtColor_gray env img) ''floorplan''
           (use_sam req \<and> SAM_AVAILABLE env) (RESULTS_DIR env @ ''/'' @ uuid8 env) = Inr []"
    and "detect_rooms env img (cvtColor_gray env img)
           (use_sam req \<and> SAM_AVAILABLE env) (RESULTS_DIR env @ ''/'' @ uuid8 env) = Inr []"
  shows "analyze_floorplan env req =
     (Mkdir (RESULTS_DIR env @ ''/'' @ uuid8 env)
        # Imwrite (RESULTS_DIR env @ ''/'' @ uuid8 env @ ''/input.png'')
        # tr_s
        @ [Call_detect_rooms_advanced img (cvtColor_gray env img) ''floorplan''
             (use_sam req \<and> SAM_AVAILABLE env) (RESULTS_DIR env @ ''/'' @ uuid8 env),
           Call_detect_rooms img (cvtColor_gray env img)
             (use_sam req \<and> SAM_AVAILABLE env) (RESULTS_DIR env @ ''/'' @ uuid8 env)],
      Inl (HTTPException 422 ''No rooms detected in image''))"
proof -
  let ?dir = "RESULTS_DIR env @ ''/'' @ uuid8 env"
  let ?gray = "cvtColor_gray env img"
  have d: "room_detection env img ?gray (use_sam req) ?dir
      = ([Call_detect_rooms_advanced img ?gray ''floorplan''
             (use_sam req \<and> SAM_AVAILABLE env) ?dir,
          Call_detect_rooms img ?gray (use_sam req \<and> SAM_AVAILABLE env) ?dir], Inr [])"
    using assms(3) assms(4) by (simp add: room_detection_def Let_def)
  obtain sc1 sc2 where sc: "sc = (sc1, sc2)" by (cases sc)
  have "analyze_try env req (uuid8 env) ?dir =
     (Imwrite (?dir @ ''/input.png'') # tr_s
        @ [Call_detect_rooms_advanced img ?gray ''floorplan''
             (use_sam req \<and> SAM_AVAILABLE env) ?dir,
           Call_detect_rooms img ?gray (use_sam req \<and> SAM_AVAILABLE env) ?dir],
      Inl (HTTPException 422 ''No rooms detected in image''))"
    using assms(1) assms(2) d
    by (simp add: analyze_try_def Let_def sc split: prod.splits)
  then show ?thesis by (simp add: analyze_floorplan_def Let_def)
qed

lemma demo_empty:
  "analyze_floorplan (demo_env cn) (demo_request [13]) =
     ([Mkdir ''/tmp/gem-ai-results/1a2b3c4d'',
       Imwrite ''/tmp/gem-ai-results/1a2b3c4d/input.png'',
       Call_detect_rooms_advanced [13] [13] ''floorplan'' False ''/tmp/gem-ai-results/1a2b3c4d'',
       Call_detect_rooms [13] [13] False ''/tmp/gem-ai-results/1a2b3c4d''],
      Inl (HTTPException 422 ''No rooms detected in image''))"
  by (simp add: analyze_floorplan_def analyze_try_def scale_detection_def room_detection_def
      demo_env_def demo_request_def Let_def)

text \<open>The claim on the example: image \<open>[13]\<close>, in which neither detector finds a room.\<close>

theorem no_rooms_detected_witness:
  "imdecode (demo_env ''bedroom'') (contents (demo_request [13])) = Some [13]
   \<and> scale_detection (demo_env ''bedroom'') [13] (req_pixels_per_metre (demo_request [13]))
       = ([], Inr (Finite 100, \<lparr>detected = ''user_provided'', pixels_per_metre = Finite 100,
                          confidence = ''user''\<rparr>))
   \<and> detect_rooms_advanced (demo_env ''bedroom'') [13] [13] ''floorplan'' False
        ''/tmp/gem-ai-results/1a2b3c4d'' = Inr []
   \<and> detect_rooms (demo_env ''bedroom'') [13] [13] False ''/tmp/gem-ai-results/1a2b3c4d'' = Inr []
   \<and> analyze_floorplan (demo_env ''bedroom'') (demo_request [13]) =
       ([Mkdir ''/tmp/gem-ai-results/1a2b3c4d'',
         Imwrite ''/tmp/gem-ai-results/1a2b3c4d/input.png'',
         Call_detect_rooms_advanced [13] [13] ''floorplan'' False ''/tmp/gem-ai-results/1a2b3c4d'',
         Call_detect_rooms [13] [13] False ''/tmp/gem-ai-results/1a2b3c4d''],
        Inl (HTTPException 422 ''No rooms detected in image''))"
proof -
  let ?env = "demo_env ''bedroom''"
  let ?req = "demo_request [13]"
  have i: "imdecode ?env (contents ?req) = Some [13]"
    by (simp add: demo_env_def demo_request_def)
  have g: "cvtColor_gray ?env [13] = [13]" by (simp add: demo_env_def)
  have u: "(use_sam ?req \<and> SAM_AVAILABLE ?env) = False"
    "RESULTS_DIR ?env @ ''/'' @ uuid8 ?env = ''/tmp/gem-ai-results/1a2b3c4d''"
    by (simp_all add: demo_env_def)
  have s: "scale_detection ?env [13] (req_pixels_per_metre ?req)
       = ([], Inr (Finite 100, \<lparr>detected = ''user_provided'', pixels_per_metre = Finite 100,
                          confidence = ''user''\<rparr>))"
    by (simp add: scale_detection_def demo_request_def)
  have a: "detect_rooms_advanced ?env [13] [13] ''floorplan'' False
        ''/tmp/gem-ai-results/1a2b3c4d'' = Inr []"
    by (simp add: demo_env_def)
  have h: "detect_rooms ?env [13] [13] False ''/tmp/gem-ai-results/1a2b3c4d'' = Inr []"
    by (simp add: demo_env_def)
  note t = no_rooms_detected [of ?env ?req "[13]" "[]", unfolded g u, OF i s a h]
  from t have r: "analyze_floorplan ?env ?req =
       ([Mkdir ''/tmp/gem-ai-results/1a2b3c4d'',
         Imwrite ''/tmp/gem-ai-results/1a2b3c4d/input.png'',
         Call_detect_rooms_advanced [13] [13] ''floorplan'' False ''/tmp/gem-ai-results/1a2b3c4d'',
         Call_detect_rooms [13] [13] False ''/tmp/gem-ai-results/1a2b3c4d''],
        Inl (HTTPException 422 ''No rooms detected in image''))"
    by (simp add: demo_env_def)
  from i s a h r show ?thesis by blast
qed

section \<open>Properties of the answer\<close>

lemma to_metres_length:
  "to_metres height ppm acc rs = Inr ms \<Longrightarrow> length ms = length acc + length rs"
  by (induction rs arbitrary: acc) (auto split: sum.splits)

lemma scale_detection_ppm:
  "scale_detection env gray p = (tr, Inr (ppm, sinfo)) \<Longrightarrow> pixels_per_metre sinfo = ppm"
  by (auto simp: scale_detection_def Let_def split: option.splits sum.splits)

lemma project_float_rename [simp]:
  "project_float height ppm (class_name_update g r) = project_float height ppm r"
  by (simp add: project_float_def)

lemma to_metres_rename [simp]:
  "to_metres height ppm acc (map (class_name_update g) rs) = to_metres height ppm acc rs"
  by (induction rs arbitrary: acc) (simp_all split: sum.splits)

lemma room_detection_rename:
  "room_detection
     (env\<lparr>detect_rooms_advanced :=
            \<lambda>i gr m f d. map_sum id (map (class_name_update g)) (detect_rooms_advanced env i gr m f d),
          detect_rooms :=
            \<lambda>i gr f d. map_sum id (map (class_name_update g)) (detect_rooms env i gr f d)\<rparr>)
     img gray sam job_dir
   = (fst (room_detection env img gray sam job_dir),
      map_sum id (map (class_name_update g)) (snd (room_detection env img gray sam job_dir)))"
  by (simp add: room_detection_def Let_def split: sum.splits)

lemma analyze_try_rename:
  "analyze_try
     (env\<lparr>detect_rooms_advanced :=
            \<lambda>i gr m f d. map_sum id (map (class_name_update g)) (detect_rooms_advanced env i gr m f d),
          detect_rooms :=
            \<lambda>i gr f d. map_sum id (map (class_name_update g)) (detect_rooms env i gr f d)\<rparr>)
     req jid job_dir
   = analyze_try env req jid job_dir"
proof -
  let ?env' = "env\<lparr>detect_rooms_advanced :=
            \<lambda>i gr m f d. map_sum id (map (class_name_update g)) (detect_rooms_advanced env i gr m f d),
          detect_rooms :=
            \<lambda>i gr f d. map_sum id (map (class_name_update g)) (detect_rooms env i gr f d)\<rparr>"
  have s: "scale_detection ?env' gray p = scale_detection env gray p" for gray p
    by (simp add: scale_detection_def split: option.splits)
  have e: "export_artifacts ?env' req job_dir rooms_m = export_artifacts env req job_dir rooms_m"
    for rooms_m
    by (simp add: export_artifacts_def cong: option.case_cong)
  have b: "build_result ?env' req jid sinfo w h rooms_m = build_result env req jid sinfo w h rooms_m"
    for sinfo w h rooms_m
    by (simp add: build_result_def)
  show ?thesis
  proof (cases "imdecode env (contents req)")
    case None then show ?thesis by (simp add: analyze_try_def)
  next
    case (Some img)
    obtain tr_d rd where d: "room_detection env img (cvtColor_gray env img) (use_sam req) job_dir = (tr_d, rd)"
      by (cases "room_detection env img (cvtColor_gray env img) (use_sam req) job_dir")
    show ?thesis
    proof (cases rd)
      case (Inl x)
      with Some d show ?thesis
        by (simp add: analyze_try_def Let_def s e b room_detection_rename cong: if_cong split: prod.splits)
    next
      case (Inr rooms_px)
      with Some d show ?thesis
        by (simp add: analyze_try_def Let_def s e b room_detection_rename cong: if_cong split: prod.splits)
    qed
  qed
qed

text \<open>
  Claim C5. When the analysis succeeds, the answer holds the rooms in metres (the
  projection of the detected rooms, in order), their number, the total area that
  \<^verbatim>\<open>sum\<close> gives rounded to one decimal, the scale used, the image size and the four
  download paths, and it is what the handler writes to \<^verbatim>\<open>result.json\<close>. The answer has
  no key for the rooms in pixels and none for a class name: the events and the answer
  of the handler stay the same when the detectors report other class names.
\<close>

theorem analysis_result_contents:
  "(analyze_floorplan env req = (tr, Inr res) \<longrightarrow>
      (\<exists>img height width tr_s ppm sinfo tr_d rooms_px rooms_m.
          imdecode env (contents req) = Some img
        \<and> gray_shape env (cvtColor_gray env img) = (height, width)
        \<and> scale_detection env (cvtColor_gray env img) (req_pixels_per_metre req)
            = (tr_s, Inr (ppm, sinfo))
        \<and> room_detection env img (cvtColor_gray env img) (use_sam req)
              (RESULTS_DIR env @ ''/'' @ uuid8 env) = (tr_d, Inr rooms_px)
        \<and> rooms_px \<noteq> []
        \<and> to_metres height ppm [] rooms_px = Inr rooms_m
        \<and> result_rooms res = rooms_m
        \<and> rooms_detected res = length rooms_px
        \<and> total_area_m2 res = float_round (float_sum env (map area_m2 rooms_m)) 1
        \<and> scale res = sinfo
        \<and> pixels_per_metre sinfo = ppm
        \<and> result_image_size res = (width, height)
        \<and> files res = \<lparr>file_preview = ''/download/'' @ uuid8 env @ ''/preview.png'',
                         file_gbxml = ''/download/'' @ uuid8 env @ ''/floorplan.xml'',
                         file_obj = ''/download/'' @ uuid8 env @ ''/floorplan.obj'',
                         file_input = ''/download/'' @ uuid8 env @ ''/input.png''\<rparr>
        \<and> tr = Mkdir (RESULTS_DIR env @ ''/'' @ uuid8 env)
               # Imwrite ((RESULTS_DIR env @ ''/'' @ uuid8 env) @ ''/input.png'')
               # tr_s @ tr_d
               @ [Call_gbxml_save (building_name req)
                    (add_spaces (floor_height req) 1 [] rooms_m)
                    ((RESULTS_DIR env @ ''/'' @ uuid8 env) @ ''/floorplan.xml''),
                  Call_export_obj rooms_m (floor_height req)
                    ((RESULTS_DIR env @ ''/'' @ uuid8 env) @ ''/floorplan.obj''),
                  Imwrite ((RESULTS_DIR env @ ''/'' @ uuid8 env) @ ''/preview.png''),
                  Call_write_text ((RESULTS_DIR env @ ''/'' @ uuid8 env) @ ''/result.json'') res]))
   \<and> analyze_floorplan
        (env\<lparr>detect_rooms_advanced :=
               \<lambda>i gr m f d. map_sum id (map (class_name_update g))
                              (detect_rooms_advanced env i gr m f d),
             detect_rooms :=
               \<lambda>i gr f d. map_sum id (map (class_name_update g)) (detect_rooms env i gr f d)\<rparr>)
        req
       = analyze_floorplan env req"
proof -
  let ?dir = "RESULTS_DIR env @ ''/'' @ uuid8 env"
  have ok: "\<exists>img height width tr_s ppm sinfo tr_d rooms_px rooms_m.
          imdecode env (contents req) = Some img
        \<and> gray_shape env (cvtColor_gray env img) = (height, width)
        \<and> scale_detection env (cvtColor_gray env img) (req_pixels_per_metre req)
            = (tr_s, Inr (ppm, sinfo))
        \<and> room_detection env img (cvtColor_gray env img) (use_sam req) ?dir = (tr_d, Inr rooms_px)
        \<and> rooms_px \<noteq> []
        \<and> to_metres height ppm [] rooms_px = Inr rooms_m
        \<and> result_rooms res = rooms_m
        \<and> rooms_detected res = length rooms_px
        \<and> total_area_m2 res = float_round (float_sum env (map area_m2 rooms_m)) 1
        \<and> scale res = sinfo
        \<and> pixels_per_metre sinfo = ppm
        \<and> result_image_size res = (width, height)
        \<and> files res = \<lparr>file_preview = ''/download/'' @ uuid8 env @ ''/preview.png'',
                         file_gbxml = ''/download/'' @ uuid8 env @ ''/floorplan.xml'',
                         file_obj = ''/download/'' @ uuid8 env @ ''/floorplan.obj'',
                         file_input = ''/download/'' @ uuid8 env @ ''/input.png''\<rparr>
        \<and> tr = Mkdir ?dir # Imwrite (?dir @ ''/input.png'') # tr_s @ tr_d
               @ [Call_gbxml_save (building_name req)
                    (add_spaces (floor_height req) 1 [] rooms_m) (?dir @ ''/floorplan.xml''),
                  Call_export_obj rooms_m (floor_height req) (?dir @ ''/floorplan.obj''),
                  Imwrite (?dir @ ''/preview.png''),
                  Call_write_text (?dir @ ''/result.json'') res]"
    if a: "analyze_floorplan env req = (tr, Inr res)"
  proof -
    from a have t: "analyze_try env req (uuid8 env) ?dir = (tl tr, Inr res)"
      and m: "tr = Mkdir ?dir # tl tr"
      by (auto simp: analyze_floorplan_def Let_def split: prod.splits sum.splits)
    from analyze_try_Inr [OF t] obtain img height width tr_s ppm sinfo tr_d rooms_px rooms_m
      where c: "imdecode env (contents req) = Some img
        \<and> gray_shape env (cvtColor_gray env img) = (height, width)
        \<and> scale_detection env (cvtColor_gray env img) (req_pixels_per_metre req)
            = (tr_s, Inr (ppm, sinfo))
        \<and> room_detection env img (cvtColor_gray env img) (use_sam req) ?dir = (tr_d, Inr rooms_px)
        \<and> rooms_px \<noteq> []
        \<and> to_metres height ppm [] rooms_px = Inr rooms_m
        \<and> res = build_result env req (uuid8 env) sinfo width height rooms_m
        \<and> tl tr = Imwrite (?dir @ ''/input.png'') # tr_s @ tr_d @
           [Call_gbxml_save (building_name req) (add_spaces (floor_height req) 1 [] rooms_m)
              (?dir @ ''/floorplan.xml''),
            Call_export_obj rooms_m (floor_height req) (?dir @ ''/floorplan.obj''),
            Imwrite (?dir @ ''/preview.png''),
            Call_write_text (?dir @ ''/result.json'') res]"
      by (elim exE) (rule that)
    note i = c [THEN conjunct1]
    note c2 = c [THEN conjunct2]
    note g = c2 [THEN conjunct1]
    note c3 = c2 [THEN conjunct2]
    note s = c3 [THEN conjunct1]
    note c4 = c3 [THEN conjunct2]
    note d = c4 [THEN conjunct1]
    note c5 = c4 [THEN conjunct2]
    note ne = c5 [THEN conjunct1]
    note c6 = c5 [THEN conjunct2]
    note tm = c6 [THEN conjunct1]
    note c7 = c6 [THEN conjunct2]
    note r = c7 [THEN conjunct1]
    note tt = c7 [THEN conjunct2]
    from to_metres_length [OF tm] have len: "length rooms_m = length rooms_px" by simp
    from r len have f: "result_rooms res = rooms_m" "rooms_detected res = length rooms_px"
      "total_area_m2 res = float_round (float_sum env (map area_m2 rooms_m)) 1"
      "scale res = sinfo" "result_image_size res = (width, height)"
      "files res = \<lparr>file_preview = ''/download/'' @ uuid8 env @ ''/preview.png'',
                         file_gbxml = ''/download/'' @ uuid8 env @ ''/floorplan.xml'',
                         file_obj = ''/download/'' @ uuid8 env @ ''/floorplan.obj'',
                         file_input = ''/download/'' @ uuid8 env @ ''/input.png''\<rparr>"
      by (simp_all add: build_result_def Let_def)
    from m tt have trace: "tr = Mkdir ?dir # Imwrite (?dir @ ''/input.png'') # tr_s @ tr_d
               @ [Call_gbxml_save (building_name req)
                    (add_spaces (floor_height req) 1 [] rooms_m) (?dir @ ''/floorplan.xml''),
                  Call_export_obj rooms_m (floor_height req) (?dir @ ''/floorplan.obj''),
                  Imwrite (?dir @ ''/preview.png''),
                  Call_write_text (?dir @ ''/result.json'') res]"
      by simp
    note sp = scale_detection_ppm [OF s]
    show ?thesis
      by (intro exI conjI) (rule i g s d ne tm f sp trace)+
  qed
  have ind: "analyze_floorplan
        (env\<lparr>detect_rooms_advanced :=
               \<lambda>i gr m f d. map_sum id (map (class_name_update g))
                              (detect_rooms_advanced env i gr m f d),
             detect_rooms :=
               \<lambda>i gr f d. map_sum id (map (class_name_update g)) (detect_rooms env i gr f d)\<rparr>)
        req
       = analyze_floorplan env req"
    by (simp add: analyze_floorplan_def analyze_try_rename)
  show ?thesis
  proof (intro conjI impI)
    assume "analyze_floorplan env req = (tr, Inr res)"
    then show "\<exists>img height width tr_s ppm sinfo tr_d rooms_px rooms_m.
          imdecode env (contents req) = Some img
        \<and> gray_shape env (cvtColor_gray env img) = (height, width)
        \<and> scale_detection env (cvtColor_gray env img) (req_pixels_per_metre req)
            = (tr_s, Inr (ppm, sinfo))
        \<and> room_detection env img (cvtColor_gray env img) (use_sam req)
              (RESULTS_DIR env @ ''/'' @ uuid8 env) = (tr_d, Inr rooms_px)
        \<and> rooms_px \<noteq> []
        \<and> to_metres height ppm [] rooms_px = Inr rooms_m
        \<and> result_rooms res = rooms_m
        \<and> rooms_detected res = length rooms_px
        \<and> total_area_m2 res = float_round (float_sum env (map area_m2 rooms_m)) 1
        \<and> scale res = sinfo
        \<and> pixels_per_metre sinfo = ppm
        \<and> result_image_size res = (width, height)
        \<and> files res = \<lparr>file_preview = ''/download/'' @ uuid8 env @ ''/preview.png'',
                         file_gbxml = ''/download/'' @ uuid8 env @ ''/floorplan.xml'',
                         file_obj = ''/download/'' @ uuid8 env @ ''/floorplan.obj'',
                         file_input = ''/download/'' @ uuid8 env @ ''/input.png''\<rparr>
        \<and> tr = Mkdir (RESULTS_DIR env @ ''/'' @ uuid8 env)
               # Imwrite ((RESULTS_DIR env @ ''/'' @ uuid8 env) @ ''/input.png'')
               # tr_s @ tr_d
               @ [Call_gbxml_save (building_name req)
                    (add_spaces (floor_height req) 1 [] rooms_m)
                    ((RESULTS_DIR env @ ''/'' @ uuid8 env) @ ''/floorplan.xml''),
                  Call_export_obj rooms_m (floor_height req)
                    ((RESULTS_DIR env @ ''/'' @ uuid8 env) @ ''/floorplan.obj''),
                  Imwrite ((RESULTS_DIR env @ ''/'' @ uuid8 env) @ ''/preview.png''),
                  Call_write_text ((RESULTS_DIR env @ ''/'' @ uuid8 env) @ ''/result.json'') res]"
      by (rule ok)
  next
    show "analyze_floorplan
        (env\<lparr>detect_rooms_advanced :=
               \<lambda>i gr m f d. map_sum id (map (class_name_update g))
                              (detect_rooms_advanced env i gr m f d),
             detect_rooms :=
               \<lambda>i gr f d. map_sum id (map (class_name_update g)) (detect_rooms env i gr f d)\<rparr>)
        req
       = analyze_floorplan env req"
      by (rule ind)
  qed
qed

text \<open>The claim on the example: the answer to image \<open>[11]\<close>.\<close>

theorem analysis_result_contents_witness:
  "analyze_floorplan (demo_env ''bedroom'') (demo_request [11])
     = (fst (analyze_floorplan (demo_env ''bedroom'') (demo_request [11])), Inr demo_result)
   \<and> result_rooms demo_result = demo_rooms_m
   \<and> to_metres 600 (Finite 100) [] [demo_room ''bedroom''] = Inr demo_rooms_m
   \<and> rooms_detected demo_result = 1
   \<and> total_area_m2 demo_result = Finite (5404319552844595 / 18014398509481984)
   \<and> pixels_per_metre (scale demo_result) = Finite 100
   \<and> file_gbxml (files demo_result) = ''/download/1a2b3c4d/floorplan.xml''
   \<and> Call_write_text ''/tmp/gem-ai-results/1a2b3c4d/result.json'' demo_result
       \<in> set (fst (analyze_floorplan (demo_env ''bedroom'') (demo_request [11])))"
proof -
  let ?env = "demo_env ''bedroom''"
  let ?req = "demo_request [11]"
  let ?tr = "fst (analyze_floorplan ?env ?req)"
  have a: "analyze_floorplan ?env ?req = (?tr, Inr demo_result)"
    by (simp add: demo_analyze)
  note t = analysis_result_contents [of ?env ?req ?tr demo_result id, THEN conjunct1, THEN mp, OF a]
  from t obtain img height width tr_s ppm sinfo tr_d rooms_px rooms_m where
    c: "files demo_result = \<lparr>file_preview = ''/download/'' @ uuid8 ?env @ ''/preview.png'',
                         file_gbxml = ''/download/'' @ uuid8 ?env @ ''/floorplan.xml'',
                         file_obj = ''/download/'' @ uuid8 ?env @ ''/floorplan.obj'',
                         file_input = ''/download/'' @ uuid8 ?env @ ''/input.png''\<rparr>
      \<and> ?tr = Mkdir (RESULTS_DIR ?env @ ''/'' @ uuid8 ?env)
               # Imwrite ((RESULTS_DIR ?env @ ''/'' @ uuid8 ?env) @ ''/input.png'')
               # tr_s @ tr_d
               @ [Call_gbxml_save (building_name ?req)
                    (add_spaces (floor_height ?req) 1 [] rooms_m)
                    ((RESULTS_DIR ?env @ ''/'' @ uuid8 ?env) @ ''/floorplan.xml''),
                  Call_export_obj rooms_m (floor_height ?req)
                    ((RESULTS_DIR ?env @ ''/'' @ uuid8 ?env) @ ''/floorplan.obj''),
                  Imwrite ((RESULTS_DIR ?env @ ''/'' @ uuid8 ?env) @ ''/preview.png''),
                  Call_write_text ((RESULTS_DIR ?env @ ''/'' @ uuid8 ?env) @ ''/result.json'')
                    demo_result]"
    by (elim exE conjE) (rule that, rule conjI)
  have u: "uuid8 ?env = ''1a2b3c4d''" "RESULTS_DIR ?env = ''/tmp/gem-ai-results''"
    by (simp_all add: demo_env_def)
  from c [THEN conjunct1]
  have 1: "file_gbxml (files demo_result) = ''/download/1a2b3c4d/floorplan.xml''"
    by (simp add: u)
  have "Call_write_text ((RESULTS_DIR ?env @ ''/'' @ uuid8 ?env) @ ''/result.json'') demo_result
          \<in> set ?tr"
    by (subst c [THEN conjunct2]) simp
  then have 2: "Call_write_text ''/tmp/gem-ai-results/1a2b3c4d/result.json'' demo_result \<in> set ?tr"
    by (simp add: u)
  have 3: "result_rooms demo_result = demo_rooms_m" "rooms_detected demo_result = 1"
    "total_area_m2 demo_result = Finite (5404319552844595 / 18014398509481984)"
    "pixels_per_metre (scale demo_result) = Finite 100"
    by (simp_all add: demo_result_def)
  show ?thesis by (intro conjI a 1 2 3 demo_to_metres)
qed

text \<open>
  Two deployments whose primary strategy reports the same rectangle, once as a
  bedroom and once as a kitchen: the handler does and answers the same in both, so
  the class name is not in the answer.
\<close>

theorem analysis_result_contents_counterexample:
  "detect_rooms_advanced (demo_env ''bedroom'') [11] [11] ''floorplan'' False
       ''/tmp/gem-ai-results/1a2b3c4d'' = Inr [demo_room ''bedroom'']
   \<and> detect_rooms_advanced (demo_env ''kitchen'') [11] [11] ''floorplan'' False
       ''/tmp/gem-ai-results/1a2b3c4d'' = Inr [demo_room ''kitchen'']
   \<and> demo_room ''bedroom'' \<noteq> demo_room ''kitchen''
   \<and> snd (analyze_floorplan (demo_env ''bedroom'') (demo_request [11])) = Inr demo_result
   \<and> snd (analyze_floorplan (demo_env ''kitchen'') (demo_request [11])) = Inr demo_result
   \<and> fst (analyze_floorplan (demo_env ''bedroom'') (demo_request [11]))
       = fst (analyze_floorplan (demo_env ''kitchen'') (demo_request [11]))"
  by (simp add: demo_analyze) (simp add: demo_env_def demo_room_def)

end
